theory Spec2Isabelle
  imports Complex_Main "HOL-Library.AList"
begin

text \<open>
  The flash-close utility \<^verbatim>\<open>run.py\<close>: the decorator \<^verbatim>\<open>retry_async\<close>, the class
  \<^verbatim>\<open>BitgetExchange\<close> that wraps the exchange client, and the coroutine \<^verbatim>\<open>main\<close> that closes
  every open position, cancels every pending order and verifies the result. The line
  numbers are those of \<^verbatim>\<open>run.py\<close>.
\<close>

section \<open>Python values and exceptions\<close>

text \<open>
  Everything the program reads from the exchange client is a parsed JSON value: a
  Python \<^verbatim>\<open>None\<close>, \<^verbatim>\<open>bool\<close>, \<^verbatim>\<open>int\<close>, \<^verbatim>\<open>float\<close>, \<^verbatim>\<open>str\<close>, \<^verbatim>\<open>list\<close> or \<^verbatim>\<open>dict\<close> with string keys. A dict
  is an association list in insertion order; lookup takes the first entry of a key.
  A \<^verbatim>\<open>float\<close> is a finite number, an infinity or \<^verbatim>\<open>nan\<close>; the model takes any real as a
  finite one, and both zeros are \<open>Finite 0\<close>.
\<close>

datatype pyfloat = Finite real | PosInf | NegInf | NaN

datatype json =
    JNull
  | JBool bool
  | JInt int
  | JFloat pyfloat
  | JStr string
  | JList "json list"
  | JDict "(string \<times> json) list"

text \<open>
  The program tests one exception class only, \<^verbatim>\<open>ccxt.RateLimitExceeded\<close> (line 29); every
  other exception, raised by the exchange client or by Python itself, is \<open>Exception\<close>.
  The string is \<^verbatim>\<open>str(e)\<close>.
\<close>

datatype exn = RateLimitExceeded string | Exception string

fun str :: "exn \<Rightarrow> string" where
  "str (RateLimitExceeded m) = m"
| "str (Exception m) = m"

fun isinstance_RateLimitExceeded :: "exn \<Rightarrow> bool" where
  "isinstance_RateLimitExceeded (RateLimitExceeded m) = True"
| "isinstance_RateLimitExceeded (Exception m) = False"

text \<open>\<^verbatim>\<open>s.startswith(p)\<close> and \<^verbatim>\<open>p in s\<close> on strings.\<close>

definition startswith :: "string \<Rightarrow> string \<Rightarrow> bool" where
  "startswith s p = (take (length p) s = p)"

fun is_substring :: "string \<Rightarrow> string \<Rightarrow> bool" where
  "is_substring p [] = (p = [])"
| "is_substring p (c # cs) = (startswith (c # cs) p \<or> is_substring p cs)"

text \<open>The name Python prints for the type of a value, and the truth value of a value.\<close>

fun type_name :: "json \<Rightarrow> string" where
  "type_name JNull = ''NoneType''"
| "type_name (JBool b) = ''bool''"
| "type_name (JInt i) = ''int''"
| "type_name (JFloat r) = ''float''"
| "type_name (JStr s) = ''str''"
| "type_name (JList xs) = ''list''"
| "type_name (JDict kvs) = ''dict''"

fun truthy :: "json \<Rightarrow> bool" where
  "truthy JNull = False"
| "truthy (JBool b) = b"
| "truthy (JInt i) = (i \<noteq> 0)"
| "truthy (JFloat x) = (x \<noteq> Finite 0)"
| "truthy (JStr s) = (s \<noteq> [])"
| "truthy (JList xs) = (xs \<noteq> [])"
| "truthy (JDict kvs) = (kvs \<noteq> [])"

text \<open>
  The dynamic operations the program applies to these values, with the exception
  CPython 3.11 to 3.13 raises where the value has the wrong type. \<open>quoted k\<close> is
  \<^verbatim>\<open>repr(k)\<close> for the keys of this program (no quote or escape inside).
\<close>

definition quoted :: "string \<Rightarrow> string" where
  "quoted k = CHR 0x27 # k @ [CHR 0x27]"

text \<open>\<^verbatim>\<open>k in y\<close> for a string \<open>k\<close>.\<close>

fun py_contains :: "string \<Rightarrow> json \<Rightarrow> exn + bool" where
  "py_contains k (JStr s) = Inr (is_substring k s)"
| "py_contains k (JList xs) = Inr (JStr k \<in> set xs)"
| "py_contains k (JDict kvs) = Inr (map_of kvs k \<noteq> None)"
| "py_contains k y =
     Inl (Exception (''argument of type '' @ quoted (type_name y) @ '' is not iterable''))"

text \<open>\<^verbatim>\<open>y[k]\<close> for a string \<open>k\<close>.\<close>

fun py_getitem :: "json \<Rightarrow> string \<Rightarrow> exn + json" where
  "py_getitem (JDict kvs) k =
     (case map_of kvs k of None \<Rightarrow> Inl (Exception (quoted k)) | Some v \<Rightarrow> Inr v)"
| "py_getitem (JList xs) k =
     Inl (Exception ''list indices must be integers or slices, not str'')"
| "py_getitem (JStr s) k =
     Inl (Exception (''string indices must be integers, not '' @ quoted ''str''))"
| "py_getitem y k =
     Inl (Exception (quoted (type_name y) @ '' object is not subscriptable''))"

text \<open>\<^verbatim>\<open>y.get(k, default)\<close>.\<close>

fun py_get :: "json \<Rightarrow> string \<Rightarrow> json \<Rightarrow> exn + json" where
  "py_get (JDict kvs) k d = Inr (case map_of kvs k of None \<Rightarrow> d | Some v \<Rightarrow> v)"
| "py_get y k d =
     Inl (Exception (quoted (type_name y) @ '' object has no attribute '' @ quoted ''get''))"

text \<open>The items of \<^verbatim>\<open>for x in y\<close>, and \<^verbatim>\<open>len(y)\<close>.\<close>

fun py_iter :: "json \<Rightarrow> exn + json list" where
  "py_iter (JList xs) = Inr xs"
| "py_iter (JDict kvs) = Inr (map (\<lambda>kv. JStr (fst kv)) kvs)"
| "py_iter (JStr s) = Inr (map (\<lambda>c. JStr [c]) s)"
| "py_iter y = Inl (Exception (quoted (type_name y) @ '' object is not iterable''))"

fun py_len :: "json \<Rightarrow> exn + nat" where
  "py_len (JList xs) = Inr (length xs)"
| "py_len (JDict kvs) = Inr (length kvs)"
| "py_len (JStr s) = Inr (length s)"
| "py_len y = Inl (Exception (''object of type '' @ quoted (type_name y) @ '' has no len()''))"

text \<open>
  \<^verbatim>\<open>float(y)\<close>. An \<^verbatim>\<open>int\<close> is rounded to the nearest double, half to even, and
  \<^verbatim>\<open>float\<close> raises \<^verbatim>\<open>OverflowError\<close> when the result is beyond the largest double, that is
  from \<open>2 ^ 1024 - 2 ^ 970\<close> on in absolute value; below that the model keeps the integer
  itself, which has the sign of the double. Parsing a string is Python's own business:
  \<open>float_str s\<close> is the outcome of \<^verbatim>\<open>float(s)\<close> on a string, a parameter of the model.
\<close>

fun py_float :: "(string \<Rightarrow> exn + pyfloat) \<Rightarrow> json \<Rightarrow> exn + pyfloat" where
  "py_float float_str (JInt i) =
     (if \<bar>i\<bar> \<ge> 2 ^ 1024 - 2 ^ 970 then Inl (Exception ''int too large to convert to float'')
      else Inr (Finite (real_of_int i)))"
| "py_float float_str (JFloat x) = Inr x"
| "py_float float_str (JBool b) = Inr (Finite (if b then 1 else 0))"
| "py_float float_str (JStr s) = float_str s"
| "py_float float_str y =
     Inl (Exception (''float() argument must be a string or a real number, not ''
            @ quoted (type_name y)))"

text \<open>\<^verbatim>\<open>x > 0\<close> on a \<^verbatim>\<open>float\<close>: false for \<^verbatim>\<open>nan\<close>.\<close>

fun greater_than_zero :: "pyfloat \<Rightarrow> bool" where
  "greater_than_zero (Finite r) = (r > 0)"
| "greater_than_zero PosInf = True"
| "greater_than_zero NegInf = False"
| "greater_than_zero NaN = False"

section \<open>Effects: remote calls, sleeps and printed lines\<close>

text \<open>
  The methods of the exchange client \<^verbatim>\<open>self._exchange\<close> that the program calls, with their
  arguments: \<^verbatim>\<open>close()\<close>, \<^verbatim>\<open>load_markets()\<close>, \<^verbatim>\<open>fetch_positions(params=p)\<close>,
  \<^verbatim>\<open>close_position(symbol, side=side)\<close>,
  \<^verbatim>\<open>private_mix_get_v2_mix_order_orders_plan_pending(p)\<close>,
  \<^verbatim>\<open>private_mix_get_v2_mix_order_orders_pending(p)\<close>,
  \<^verbatim>\<open>private_mix_post_v2_mix_order_cancel_plan_order(p)\<close> and
  \<^verbatim>\<open>private_mix_post_v2_mix_order_cancel_order(p)\<close>.
\<close>

datatype request =
    Close
  | LoadMarkets
  | FetchPositions json
  | ClosePosition json json
  | OrdersPlanPending json
  | OrdersPending json
  | CancelPlanOrder json
  | CancelOrder json

text \<open>One constructor for each \<^verbatim>\<open>print\<close> statement, carrying the values it interpolates.\<close>

datatype msg =
    RateLimitHit int int int
  | UnexpectedResponseFormat
  | ErrorFetchingLimitOrders string
  | Starting
  | FetchingPositions
  | NoOpenPositions
  | FoundPositions nat
  | ClosingPosition json
  | ClosedPosition json json json
  | ErrorClosingPosition json string json
  | FetchingTriggerOrders
  | NoTriggerOrders
  | FoundTriggerOrders nat
  | CanceledTriggerOrder json json
  | ErrorCancelingTriggerOrder json string
  | FetchingTpslOrders
  | NoTpslOrders
  | FoundTpslOrders nat
  | CanceledTpslOrder json json
  | ErrorCancelingTpslOrder json string
  | FetchingLimitOrders
  | NoLimitOrders
  | FoundLimitOrders nat
  | CanceledLimitOrder json json
  | ErrorCancelingLimitOrder json string
  | PerformingFinalVerification
  | PositionsStillOpen nat
  | StillOpenPosition json json json
  | AllPositionsClosed
  | OrdersStillOpen nat
  | TriggerOrdersCount nat
  | TpslOrdersCount nat
  | LimitOrdersCount nat
  | AllOrdersCanceled
  | Error string
  | Completed

text \<open>
  What a run does, in order: a call of a method of the exchange client, an
  \<^verbatim>\<open>asyncio.sleep(delay)\<close>, a printed line.
\<close>

datatype event = Invoke request | Sleep int | Print msg

fun invocations :: "event list \<Rightarrow> request list" where
  "invocations [] = []"
| "invocations (Invoke r # evs) = r # invocations evs"
| "invocations (ev # evs) = invocations evs"

fun sleeps :: "event list \<Rightarrow> int list" where
  "sleeps [] = []"
| "sleeps (Sleep d # evs) = d # sleeps evs"
| "sleeps (ev # evs) = sleeps evs"

fun prints :: "event list \<Rightarrow> msg list" where
  "prints [] = []"
| "prints (Print m # evs) = m # prints evs"
| "prints (ev # evs) = prints evs"

text \<open>
  A coroutine of the program: from a state it returns a value or raises, emits events and
  leaves a state. The events are write-only, as the terminal and the clock are.
\<close>

type_synonym ('s, 'a) io = "'s \<Rightarrow> (exn + 'a) \<times> event list \<times> 's"

definition io_return :: "'a \<Rightarrow> ('s, 'a) io" where
  "io_return x = (\<lambda>s. (Inr x, [], s))"

definition io_raise :: "exn \<Rightarrow> ('s, 'a) io" where
  "io_raise e = (\<lambda>s. (Inl e, [], s))"

text \<open>A pure computation that may raise, and the sequencing of two of them.\<close>

definition exn_bind :: "exn + 'a \<Rightarrow> ('a \<Rightarrow> exn + 'b) \<Rightarrow> exn + 'b" where
  "exn_bind r f = (case r of Inl e \<Rightarrow> Inl e | Inr x \<Rightarrow> f x)"

definition io_lift :: "exn + 'a \<Rightarrow> ('s, 'a) io" where
  "io_lift r = (\<lambda>s. (r, [], s))"

definition io_print :: "msg \<Rightarrow> ('s, unit) io" where
  "io_print m = (\<lambda>s. (Inr (), [Print m], s))"

definition io_sleep :: "int \<Rightarrow> ('s, unit) io" where
  "io_sleep d = (\<lambda>s. (Inr (), [Sleep d], s))"

text \<open>Sequencing: an exception of the first part skips the second.\<close>

definition io_bind :: "('s, 'a) io \<Rightarrow> ('a \<Rightarrow> ('s, 'b) io) \<Rightarrow> ('s, 'b) io" where
  "io_bind m f = (\<lambda>s.
     case m s of
       (Inl e, evs, s') \<Rightarrow> (Inl e, evs, s')
     | (Inr x, evs, s') \<Rightarrow> (case f x s' of (r, evs', s'') \<Rightarrow> (r, evs @ evs', s'')))"

text \<open>\<^verbatim>\<open>try: m except Exception as e: h(e)\<close>.\<close>

definition io_try :: "('s, 'a) io \<Rightarrow> (exn \<Rightarrow> ('s, 'a) io) \<Rightarrow> ('s, 'a) io" where
  "io_try m h = (\<lambda>s.
     case m s of
       (Inl e, evs, s') \<Rightarrow> (case h e s' of (r, evs', s'') \<Rightarrow> (r, evs @ evs', s''))
     | (Inr x, evs, s') \<Rightarrow> (Inr x, evs, s'))"

text \<open>The three parts of what a coroutine did from a state.\<close>

definition result_of :: "(exn + 'a) \<times> event list \<times> 's \<Rightarrow> exn + 'a" where
  "result_of out = fst out"

definition events_of :: "(exn + 'a) \<times> event list \<times> 's \<Rightarrow> event list" where
  "events_of out = fst (snd out)"

definition state_of :: "(exn + 'a) \<times> event list \<times> 's \<Rightarrow> 's" where
  "state_of out = snd (snd out)"

section \<open>The retry decorator (lines 17 to 37)\<close>

definition MAX_RETRIES :: int where
  "MAX_RETRIES = 5"

definition BASE_DELAY :: int where
  "BASE_DELAY = 1"

text \<open>Line 29: \<^verbatim>\<open>isinstance(e, ccxt.RateLimitExceeded) or str(e).startswith('{"code":"429"')\<close>.\<close>

definition rate_limit_prefix :: string where
  "rate_limit_prefix =
     [CHR ''{'', CHR 0x22] @ ''code'' @ [CHR 0x22, CHR '':'', CHR 0x22] @ ''429'' @ [CHR 0x22]"

definition is_rate_limit :: "exn \<Rightarrow> bool" where
  "is_rate_limit e = (isinstance_RateLimitExceeded e \<or> startswith (str e) rate_limit_prefix)"

text \<open>Line 35: the exception the wrapper raises in place of \<open>e\<close>.\<close>

definition operation_failed :: "exn \<Rightarrow> exn" where
  "operation_failed e = Exception (''BitgetExchange operation failed: '' @ str e)"

text \<open>\<^verbatim>\<open>range(n)\<close>.\<close>

definition py_range :: "int \<Rightarrow> int list" where
  "py_range n = map int [0..<nat n]"

text \<open>
  The loop of \<^verbatim>\<open>wrapper\<close> over the attempts that remain. The two module constants are
  parameters \<open>N\<close> and \<open>D\<close>. When the loop runs out of attempts the wrapper falls off its end
  and returns \<^verbatim>\<open>None\<close>.
\<close>

fun retry_loop :: "int \<Rightarrow> int \<Rightarrow> ('s, json) io \<Rightarrow> int list \<Rightarrow> ('s, json) io" where
  "retry_loop N D func [] = io_return JNull"
| "retry_loop N D func (attempt # rest) =
     io_try func (\<lambda>e.
       if is_rate_limit e \<and> attempt < N - 1 then
         (let delay = D * 2 ^ nat attempt in
          io_bind (io_print (RateLimitHit (attempt + 1) N delay)) (\<lambda>_.
          io_bind (io_sleep delay) (\<lambda>_.
          retry_loop N D func rest)))
       else io_raise (operation_failed e))"

definition retry_async :: "int \<Rightarrow> int \<Rightarrow> ('s, json) io \<Rightarrow> ('s, json) io" where
  "retry_async N D func = retry_loop N D func (py_range N)"


section \<open>The exchange wrapper (lines 40 to 170)\<close>

text \<open>
  The state of a run: the state of the remote service behind the exchange client, which
  only the client's methods read and change, and the attribute \<^verbatim>\<open>self.markets\<close>.
\<close>

record 'w state =
  remote :: 'w
  markets :: json

text \<open>
  A \<^verbatim>\<open>BitgetExchange\<close> object. \<open>client\<close> is \<^verbatim>\<open>self._exchange\<close>: what each method of the
  client returns or raises in a state of the remote service, and the state it leaves.
\<close>

record 'w BitgetExchange =
  product_type :: string
  margin_coin :: string
  client :: "request \<Rightarrow> 'w \<Rightarrow> (exn + json) \<times> 'w"

text \<open>\<^verbatim>\<open>await self._exchange.method(...)\<close>.\<close>

definition call :: "'w BitgetExchange \<Rightarrow> request \<Rightarrow> ('w state, json) io" where
  "call self req = (\<lambda>s.
     case client self req (remote s) of (r, w') \<Rightarrow> (r, [Invoke req], s\<lparr>remote := w'\<rparr>))"

text \<open>
  Lines 41 to 51. \<open>bitget\<close> is the constructor \<^verbatim>\<open>ccxt.bitget\<close> of the client, a parameter.
\<close>

definition new_exchange ::
  "(json \<Rightarrow> request \<Rightarrow> 'w \<Rightarrow> (exn + json) \<times> 'w) \<Rightarrow> (string \<times> json) list \<Rightarrow> string
     \<Rightarrow> 'w BitgetExchange" where
  "new_exchange bitget kvs pt =
     \<lparr>product_type = pt,
      margin_coin = (if pt = ''USDT-FUTURES'' then ''USDT'' else ''USDC''),
      client = bitget (JDict
        (AList.update ''rateLimit'' (JInt 100)
          (AList.update ''enableRateLimit'' (JBool True)
            (AList.update ''options'' (JDict [(''defaultType'', JStr ''future'')])
               kvs))))\<rparr>"

definition BitgetExchange_init ::
  "(json \<Rightarrow> request \<Rightarrow> 'w \<Rightarrow> (exn + json) \<times> 'w) \<Rightarrow> json \<Rightarrow> string
     \<Rightarrow> ('w state, 'w BitgetExchange) io" where
  "BitgetExchange_init bitget api_setup pt = (\<lambda>s.
     case api_setup of
       JDict kvs \<Rightarrow> (Inr (new_exchange bitget kvs pt), [], s\<lparr>markets := JNull\<rparr>)
     | _ \<Rightarrow>
         (Inl (Exception (quoted (type_name api_setup) @ '' object has no attribute ''
                 @ quoted ''update'')), [], s))"

text \<open>Lines 166 to 170.\<close>

definition format_symbol :: "json \<Rightarrow> exn + json" where
  "format_symbol symbol =
     exn_bind (py_contains ''/'' symbol) (\<lambda>has_slash.
       if has_slash then
         (case symbol of
            JStr s \<Rightarrow>
              Inr (JStr (filter (\<lambda>c. c \<noteq> CHR ''/'') (takeWhile (\<lambda>c. c \<noteq> CHR '':'') s)))
          | _ \<Rightarrow>
              Inl (Exception (quoted (type_name symbol) @ '' object has no attribute ''
                     @ quoted ''split'')))
       else Inr symbol)"

text \<open>Lines 61 to 67. The name with \<open>_func\<close> is the coroutine the decorator receives.\<close>

definition close_func :: "'w BitgetExchange \<Rightarrow> ('w state, json) io" where
  "close_func self = io_bind (call self Close) (\<lambda>_. io_return JNull)"

definition close :: "'w BitgetExchange \<Rightarrow> ('w state, json) io" where
  "close self = retry_async MAX_RETRIES BASE_DELAY (close_func self)"

definition load_markets_func :: "'w BitgetExchange \<Rightarrow> ('w state, json) io" where
  "load_markets_func self =
     io_bind (call self LoadMarkets) (\<lambda>m. (\<lambda>s. (Inr JNull, [], s\<lparr>markets := m\<rparr>)))"

definition load_markets :: "'w BitgetExchange \<Rightarrow> ('w state, json) io" where
  "load_markets self = retry_async MAX_RETRIES BASE_DELAY (load_markets_func self)"

text \<open>Lines 69 to 77. \<open>open_positions\<close> is the list comprehension.\<close>

fun open_positions :: "(string \<Rightarrow> exn + pyfloat) \<Rightarrow> json list \<Rightarrow> exn + json list" where
  "open_positions float_str [] = Inr []"
| "open_positions float_str (pos # rest) =
     exn_bind (py_get pos ''contracts'' JNull) (\<lambda>c.
       if c \<noteq> JNull then
         exn_bind (py_getitem pos ''contracts'') (\<lambda>c'.
         exn_bind (py_float float_str c') (\<lambda>f.
         exn_bind (open_positions float_str rest) (\<lambda>ps.
           Inr (if greater_than_zero f then pos # ps else ps))))
       else open_positions float_str rest)"

definition fetch_open_positions_func ::
  "'w BitgetExchange \<Rightarrow> (string \<Rightarrow> exn + pyfloat) \<Rightarrow> ('w state, json) io" where
  "fetch_open_positions_func self float_str =
     io_bind (call self (FetchPositions (JDict [(''productType'', JStr (product_type self))])))
       (\<lambda>positions.
     io_lift (exn_bind (py_iter positions) (\<lambda>items.
              exn_bind (open_positions float_str items) (\<lambda>ps. Inr (JList ps)))))"

definition fetch_open_positions ::
  "'w BitgetExchange \<Rightarrow> (string \<Rightarrow> exn + pyfloat) \<Rightarrow> ('w state, json) io" where
  "fetch_open_positions self float_str =
     retry_async MAX_RETRIES BASE_DELAY (fetch_open_positions_func self float_str)"

text \<open>Lines 79 to 84. The handler raises the exception again.\<close>

definition flash_close_position_func ::
  "'w BitgetExchange \<Rightarrow> json \<Rightarrow> json \<Rightarrow> ('w state, json) io" where
  "flash_close_position_func self symbol side =
     io_try (io_bind (call self (ClosePosition symbol side)) (\<lambda>_. io_return JNull))
       (\<lambda>e. io_raise e)"

definition flash_close_position ::
  "'w BitgetExchange \<Rightarrow> json \<Rightarrow> json \<Rightarrow> ('w state, json) io" where
  "flash_close_position self symbol side =
     retry_async MAX_RETRIES BASE_DELAY (flash_close_position_func self symbol side)"

text \<open>
  Lines 92 to 93, 109 to 110 and 126 to 127: \<^verbatim>\<open>if symbol: params["symbol"] = ...\<close>.
  No key of \<open>params\<close> is \<^verbatim>\<open>"symbol"\<close> before, so the entry is added at the end.
\<close>

definition with_symbol :: "(string \<times> json) list \<Rightarrow> json \<Rightarrow> exn + json" where
  "with_symbol params symbol =
     (if truthy symbol then
        exn_bind (format_symbol symbol) (\<lambda>f. Inr (JDict (params @ [(''symbol'', f)])))
      else Inr (JDict params))"

text \<open>Lines 97 to 101 and 114 to 118, the same text in both functions.\<close>

definition entrusted_orders :: "json \<Rightarrow> exn + json" where
  "entrusted_orders response =
     exn_bind (py_contains ''data'' response) (\<lambda>has_data.
       if has_data then
         exn_bind (py_getitem response ''data'') (\<lambda>d.
         exn_bind (py_contains ''entrustedList'' d) (\<lambda>has_list.
           if has_list then
             exn_bind (py_getitem response ''data'') (\<lambda>d'. py_getitem d' ''entrustedList'')
           else Inr (JList [])))
       else Inr (JList []))"

text \<open>Lines 86 to 101.\<close>

definition fetch_open_trigger_orders_func ::
  "'w BitgetExchange \<Rightarrow> json \<Rightarrow> ('w state, json) io" where
  "fetch_open_trigger_orders_func self symbol =
     io_bind (io_lift (with_symbol
        [(''productType'', JStr (product_type self)), (''planType'', JStr ''normal_plan'')]
        symbol)) (\<lambda>params.
     io_bind (call self (OrdersPlanPending params)) (\<lambda>response.
     io_lift (entrusted_orders response)))"

definition fetch_open_trigger_orders ::
  "'w BitgetExchange \<Rightarrow> json \<Rightarrow> ('w state, json) io" where
  "fetch_open_trigger_orders self symbol =
     retry_async MAX_RETRIES BASE_DELAY (fetch_open_trigger_orders_func self symbol)"

text \<open>Lines 103 to 118.\<close>

definition fetch_open_tpsl_orders_func ::
  "'w BitgetExchange \<Rightarrow> json \<Rightarrow> ('w state, json) io" where
  "fetch_open_tpsl_orders_func self symbol =
     io_bind (io_lift (with_symbol
        [(''productType'', JStr (product_type self)), (''planType'', JStr ''profit_loss'')]
        symbol)) (\<lambda>params.
     io_bind (call self (OrdersPlanPending params)) (\<lambda>response.
     io_lift (entrusted_orders response)))"

definition fetch_open_tpsl_orders ::
  "'w BitgetExchange \<Rightarrow> json \<Rightarrow> ('w state, json) io" where
  "fetch_open_tpsl_orders self symbol =
     retry_async MAX_RETRIES BASE_DELAY (fetch_open_tpsl_orders_func self symbol)"

text \<open>Line 140: the list comprehension.\<close>

fun limit_only :: "json list \<Rightarrow> exn + json list" where
  "limit_only [] = Inr []"
| "limit_only (order # rest) =
     exn_bind (py_get order ''orderType'' JNull) (\<lambda>t.
     exn_bind (limit_only rest) (\<lambda>os.
       Inr (if t = JStr ''limit'' then order # os else os)))"

text \<open>Lines 132 to 140: what the function makes of the response.\<close>

definition limit_orders_of_response :: "json \<Rightarrow> ('s, json) io" where
  "limit_orders_of_response response =
     (if \<not> truthy response then
        io_bind (io_print UnexpectedResponseFormat) (\<lambda>_. io_return (JList []))
      else
        io_bind (io_lift (py_contains ''data'' response)) (\<lambda>has_data.
        if \<not> has_data then
          io_bind (io_print UnexpectedResponseFormat) (\<lambda>_. io_return (JList []))
        else
          io_bind (io_lift (py_get response ''data'' (JDict []))) (\<lambda>d.
          io_bind (io_lift (py_get d ''entrustedList'' (JList []))) (\<lambda>entrusted_list.
          if entrusted_list = JNull then io_return (JList [])
          else
            io_lift (exn_bind (py_iter entrusted_list) (\<lambda>items.
                     exn_bind (limit_only items) (\<lambda>os. Inr (JList os))))))))"

text \<open>Lines 120 to 144.\<close>

definition fetch_open_limit_orders_func ::
  "'w BitgetExchange \<Rightarrow> json \<Rightarrow> ('w state, json) io" where
  "fetch_open_limit_orders_func self symbol =
     io_bind (io_lift (with_symbol
        [(''productType'', JStr (product_type self)), (''status'', JStr ''live'')]
        symbol)) (\<lambda>params.
     io_try
       (io_bind (call self (OrdersPending params)) (\<lambda>response.
        limit_orders_of_response response))
       (\<lambda>e. io_bind (io_print (ErrorFetchingLimitOrders (str e))) (\<lambda>_.
             io_return (JList []))))"

definition fetch_open_limit_orders ::
  "'w BitgetExchange \<Rightarrow> json \<Rightarrow> ('w state, json) io" where
  "fetch_open_limit_orders self symbol =
     retry_async MAX_RETRIES BASE_DELAY (fetch_open_limit_orders_func self symbol)"

text \<open>Lines 146 to 164. The dict display evaluates \<^verbatim>\<open>self._format_symbol(symbol)\<close> first.\<close>

definition cancel_params :: "'w BitgetExchange \<Rightarrow> json \<Rightarrow> json \<Rightarrow> exn + json" where
  "cancel_params self symbol order_id =
     exn_bind (format_symbol symbol) (\<lambda>f.
       Inr (JDict [(''productType'', JStr (product_type self)),
                   (''marginCoin'', JStr (margin_coin self)),
                   (''symbol'', f),
                   (''orderId'', order_id)]))"

definition cancel_trigger_order_func ::
  "'w BitgetExchange \<Rightarrow> json \<Rightarrow> json \<Rightarrow> ('w state, json) io" where
  "cancel_trigger_order_func self symbol order_id =
     io_bind (io_lift (cancel_params self symbol order_id)) (\<lambda>params.
     io_bind (call self (CancelPlanOrder params)) (\<lambda>_. io_return JNull))"

definition cancel_trigger_order ::
  "'w BitgetExchange \<Rightarrow> json \<Rightarrow> json \<Rightarrow> ('w state, json) io" where
  "cancel_trigger_order self symbol order_id =
     retry_async MAX_RETRIES BASE_DELAY (cancel_trigger_order_func self symbol order_id)"

definition cancel_limit_order_func ::
  "'w BitgetExchange \<Rightarrow> json \<Rightarrow> json \<Rightarrow> ('w state, json) io" where
  "cancel_limit_order_func self symbol order_id =
     io_bind (io_lift (cancel_params self symbol order_id)) (\<lambda>params.
     io_bind (call self (CancelOrder params)) (\<lambda>_. io_return JNull))"

definition cancel_limit_order ::
  "'w BitgetExchange \<Rightarrow> json \<Rightarrow> json \<Rightarrow> ('w state, json) io" where
  "cancel_limit_order self symbol order_id =
     retry_async MAX_RETRIES BASE_DELAY (cancel_limit_order_func self symbol order_id)"

text \<open>
  Lines 53 to 59. \<open>aexit\<close> returns \<^verbatim>\<open>False\<close>: an exception of the block is not suppressed.
\<close>

definition aenter :: "'w BitgetExchange \<Rightarrow> ('w state, 'w BitgetExchange) io" where
  "aenter self = io_bind (load_markets self) (\<lambda>_. io_return self)"

definition aexit :: "'w BitgetExchange \<Rightarrow> ('w state, bool) io" where
  "aexit self = io_bind (close self) (\<lambda>_. io_return False)"


section \<open>The run (lines 173 to 302)\<close>

text \<open>
  Lines 173 to 186. \<open>ACCOUNTS\<close> is the dict of the module \<^verbatim>\<open>secret\<close>, which is not part of the
  repository: a parameter.
\<close>

definition get_bitget_api_credentials :: "json \<Rightarrow> exn + json" where
  "get_bitget_api_credentials ACCOUNTS =
     (case
        exn_bind (py_get ACCOUNTS ''bitget1'' (JDict [])) (\<lambda>account.
        exn_bind
          (if \<not> truthy account then Inr True
           else exn_bind (py_get account ''public_api'' JNull) (\<lambda>public_api.
             if \<not> truthy public_api then Inr True
             else exn_bind (py_get account ''secret_api'' JNull) (\<lambda>secret_api.
               Inr (\<not> truthy secret_api)))) (\<lambda>invalid.
        if invalid then
          Inl (Exception ''Invalid API credentials for bitget1 in secret.py'')
        else
          exn_bind (py_getitem account ''public_api'') (\<lambda>public_api.
          exn_bind (py_getitem account ''secret_api'') (\<lambda>secret_api.
          exn_bind (py_getitem account ''password'') (\<lambda>password.
            Inr (JDict [(''apiKey'', public_api), (''secret'', secret_api),
                        (''password'', password)]))))))
      of
        Inl e \<Rightarrow> Inl (Exception (''Failed to load API credentials: '' @ str e))
      | Inr api_setup \<Rightarrow> Inr api_setup)"

text \<open>Lines 208 to 218: the loop over the positions.\<close>

fun close_each_position :: "'w BitgetExchange \<Rightarrow> json list \<Rightarrow> ('w state, unit) io" where
  "close_each_position exchange [] = io_return ()"
| "close_each_position exchange (position # rest) =
     io_bind (io_print (ClosingPosition position)) (\<lambda>_.
     io_bind (io_lift (py_getitem position ''symbol'')) (\<lambda>symbol.
     io_bind (io_lift (py_getitem position ''side'')) (\<lambda>side.
     io_bind (io_lift (py_getitem position ''contracts'')) (\<lambda>contracts.
     io_bind (io_try
                (io_bind (flash_close_position exchange symbol side) (\<lambda>_.
                 io_print (ClosedPosition side symbol contracts)))
                (\<lambda>e. io_print (ErrorClosingPosition symbol (str e) position))) (\<lambda>_.
     close_each_position exchange rest)))))"

text \<open>Lines 199 to 218.\<close>

definition step1_close_positions ::
  "'w BitgetExchange \<Rightarrow> (string \<Rightarrow> exn + pyfloat) \<Rightarrow> ('w state, unit) io" where
  "step1_close_positions exchange float_str =
     io_bind (io_print FetchingPositions) (\<lambda>_.
     io_bind (fetch_open_positions exchange float_str) (\<lambda>positions.
     if \<not> truthy positions then io_print NoOpenPositions
     else
       io_bind (io_lift (py_len positions)) (\<lambda>n.
       io_bind (io_print (FoundPositions n)) (\<lambda>_.
       io_bind (io_lift (py_iter positions)) (\<lambda>items.
       close_each_position exchange items)))))"

text \<open>Lines 229 to 237: the loop over the trigger orders.\<close>

fun cancel_each_trigger_order :: "'w BitgetExchange \<Rightarrow> json list \<Rightarrow> ('w state, unit) io" where
  "cancel_each_trigger_order exchange [] = io_return ()"
| "cancel_each_trigger_order exchange (order # rest) =
     io_bind (io_lift (py_getitem order ''symbol'')) (\<lambda>symbol.
     io_bind (io_lift (py_getitem order ''orderId'')) (\<lambda>order_id.
     io_bind (io_try
                (io_bind (cancel_trigger_order exchange symbol order_id) (\<lambda>_.
                 io_print (CanceledTriggerOrder order_id symbol)))
                (\<lambda>e. io_print (ErrorCancelingTriggerOrder order_id (str e)))) (\<lambda>_.
     cancel_each_trigger_order exchange rest)))"

text \<open>Lines 220 to 237.\<close>

definition step2_cancel_trigger_orders :: "'w BitgetExchange \<Rightarrow> ('w state, unit) io" where
  "step2_cancel_trigger_orders exchange =
     io_bind (io_print FetchingTriggerOrders) (\<lambda>_.
     io_bind (fetch_open_trigger_orders exchange JNull) (\<lambda>trigger_orders.
     if \<not> truthy trigger_orders then io_print NoTriggerOrders
     else
       io_bind (io_lift (py_len trigger_orders)) (\<lambda>n.
       io_bind (io_print (FoundTriggerOrders n)) (\<lambda>_.
       io_bind (io_lift (py_iter trigger_orders)) (\<lambda>items.
       cancel_each_trigger_order exchange items)))))"

text \<open>Lines 248 to 256: the loop over the TP/SL orders.\<close>

fun cancel_each_tpsl_order :: "'w BitgetExchange \<Rightarrow> json list \<Rightarrow> ('w state, unit) io" where
  "cancel_each_tpsl_order exchange [] = io_return ()"
| "cancel_each_tpsl_order exchange (order # rest) =
     io_bind (io_lift (py_getitem order ''symbol'')) (\<lambda>symbol.
     io_bind (io_lift (py_getitem order ''orderId'')) (\<lambda>order_id.
     io_bind (io_try
                (io_bind (cancel_trigger_order exchange symbol order_id) (\<lambda>_.
                 io_print (CanceledTpslOrder order_id symbol)))
                (\<lambda>e. io_print (ErrorCancelingTpslOrder order_id (str e)))) (\<lambda>_.
     cancel_each_tpsl_order exchange rest)))"

text \<open>Lines 239 to 256.\<close>

definition step3_cancel_tpsl_orders :: "'w BitgetExchange \<Rightarrow> ('w state, unit) io" where
  "step3_cancel_tpsl_orders exchange =
     io_bind (io_print FetchingTpslOrders) (\<lambda>_.
     io_bind (fetch_open_tpsl_orders exchange JNull) (\<lambda>tpsl_orders.
     if \<not> truthy tpsl_orders then io_print NoTpslOrders
     else
       io_bind (io_lift (py_len tpsl_orders)) (\<lambda>n.
       io_bind (io_print (FoundTpslOrders n)) (\<lambda>_.
       io_bind (io_lift (py_iter tpsl_orders)) (\<lambda>items.
       cancel_each_tpsl_order exchange items)))))"

text \<open>Lines 267 to 275: the loop over the limit orders.\<close>

fun cancel_each_limit_order :: "'w BitgetExchange \<Rightarrow> json list \<Rightarrow> ('w state, unit) io" where
  "cancel_each_limit_order exchange [] = io_return ()"
| "cancel_each_limit_order exchange (order # rest) =
     io_bind (io_lift (py_getitem order ''symbol'')) (\<lambda>symbol.
     io_bind (io_lift (py_getitem order ''orderId'')) (\<lambda>order_id.
     io_bind (io_try
                (io_bind (cancel_limit_order exchange symbol order_id) (\<lambda>_.
                 io_print (CanceledLimitOrder order_id symbol)))
                (\<lambda>e. io_print (ErrorCancelingLimitOrder order_id (str e)))) (\<lambda>_.
     cancel_each_limit_order exchange rest)))"

text \<open>Lines 258 to 275.\<close>

definition step4_cancel_limit_orders :: "'w BitgetExchange \<Rightarrow> ('w state, unit) io" where
  "step4_cancel_limit_orders exchange =
     io_bind (io_print FetchingLimitOrders) (\<lambda>_.
     io_bind (fetch_open_limit_orders exchange JNull) (\<lambda>limit_orders.
     if \<not> truthy limit_orders then io_print NoLimitOrders
     else
       io_bind (io_lift (py_len limit_orders)) (\<lambda>n.
       io_bind (io_print (FoundLimitOrders n)) (\<lambda>_.
       io_bind (io_lift (py_iter limit_orders)) (\<lambda>items.
       cancel_each_limit_order exchange items)))))"

text \<open>Lines 286 to 287: one line of the report for each position that is still open.\<close>

fun report_open_positions :: "json list \<Rightarrow> ('s, unit) io" where
  "report_open_positions [] = io_return ()"
| "report_open_positions (position # rest) =
     io_bind (io_lift (py_getitem position ''symbol'')) (\<lambda>symbol.
     io_bind (io_lift (py_getitem position ''side'')) (\<lambda>side.
     io_bind (io_lift (py_getitem position ''contracts'')) (\<lambda>contracts.
     io_bind (io_print (StillOpenPosition symbol side contracts)) (\<lambda>_.
     report_open_positions rest))))"

text \<open>Lines 284 to 297: the report, from what the four fetches of the verification returned.\<close>

definition verification_report :: "json \<Rightarrow> json \<Rightarrow> json \<Rightarrow> json \<Rightarrow> ('s, unit) io" where
  "verification_report positions trigger_orders tpsl_orders limit_orders =
     io_bind
       (if truthy positions then
          io_bind (io_lift (py_len positions)) (\<lambda>n.
          io_bind (io_print (PositionsStillOpen n)) (\<lambda>_.
          io_bind (io_lift (py_iter positions)) (\<lambda>items.
          report_open_positions items)))
        else io_print AllPositionsClosed) (\<lambda>_.
     if truthy trigger_orders \<or> truthy tpsl_orders \<or> truthy limit_orders then
       io_bind (io_lift (py_len trigger_orders)) (\<lambda>a.
       io_bind (io_lift (py_len tpsl_orders)) (\<lambda>b.
       io_bind (io_lift (py_len limit_orders)) (\<lambda>c.
       io_bind (io_print (OrdersStillOpen (a + b + c))) (\<lambda>_.
       io_bind (io_print (TriggerOrdersCount a)) (\<lambda>_.
       io_bind (io_print (TpslOrdersCount b)) (\<lambda>_.
       io_print (LimitOrdersCount c)))))))
     else io_print AllOrdersCanceled)"

text \<open>Lines 279 to 282: the four fetches of the verification.\<close>

definition verification_fetches ::
  "'w BitgetExchange \<Rightarrow> (string \<Rightarrow> exn + pyfloat) \<Rightarrow> ('w state, json \<times> json \<times> json \<times> json) io"
  where
  "verification_fetches exchange float_str =
     io_bind (fetch_open_positions exchange float_str) (\<lambda>positions.
     io_bind (fetch_open_trigger_orders exchange JNull) (\<lambda>trigger_orders.
     io_bind (fetch_open_tpsl_orders exchange JNull) (\<lambda>tpsl_orders.
     io_bind (fetch_open_limit_orders exchange JNull) (\<lambda>limit_orders.
     io_return (positions, trigger_orders, tpsl_orders, limit_orders)))))"

text \<open>Lines 277 to 297.\<close>

definition final_verification ::
  "'w BitgetExchange \<Rightarrow> (string \<Rightarrow> exn + pyfloat) \<Rightarrow> ('w state, unit) io" where
  "final_verification exchange float_str =
     io_bind (io_print PerformingFinalVerification) (\<lambda>_.
     io_bind (verification_fetches exchange float_str)
       (\<lambda>(positions, trigger_orders, tpsl_orders, limit_orders).
     verification_report positions trigger_orders tpsl_orders limit_orders))"

text \<open>Lines 199 to 297: the block of the \<^verbatim>\<open>async with\<close> statement.\<close>

definition block ::
  "'w BitgetExchange \<Rightarrow> (string \<Rightarrow> exn + pyfloat) \<Rightarrow> ('w state, unit) io" where
  "block exchange float_str =
     io_bind (step1_close_positions exchange float_str) (\<lambda>_.
     io_bind (step2_cancel_trigger_orders exchange) (\<lambda>_.
     io_bind (step3_cancel_tpsl_orders exchange) (\<lambda>_.
     io_bind (step4_cancel_limit_orders exchange) (\<lambda>_.
     final_verification exchange float_str))))"

text \<open>
  \<^verbatim>\<open>async with mgr as x: block\<close>. An exception of \<^verbatim>\<open>__aenter__\<close> leaves the statement at once.
  After the block, \<^verbatim>\<open>__aexit__\<close> runs whether the block raised or not. An exception of
  \<^verbatim>\<open>__aexit__\<close> replaces the one of the block; otherwise the exception of the block goes on
  unless \<^verbatim>\<open>__aexit__\<close> returned a true value.
\<close>

definition async_with ::
  "('s, 'x) io \<Rightarrow> ('s, bool) io \<Rightarrow> ('x \<Rightarrow> ('s, unit) io) \<Rightarrow> ('s, unit) io" where
  "async_with enter exit blk =
     io_bind enter (\<lambda>x. (\<lambda>s.
       case blk x s of
         (Inr u, evs, s') \<Rightarrow>
           (case exit s' of
              (Inr suppress, evs', s'') \<Rightarrow> (Inr (), evs @ evs', s'')
            | (Inl e', evs', s'') \<Rightarrow> (Inl e', evs @ evs', s''))
       | (Inl e, evs, s') \<Rightarrow>
           (case exit s' of
              (Inr suppress, evs', s'') \<Rightarrow>
                (if suppress then Inr () else Inl e, evs @ evs', s'')
            | (Inl e', evs', s'') \<Rightarrow> (Inl e', evs @ evs', s''))))"

text \<open>Lines 189 to 302.\<close>

definition main ::
  "json \<Rightarrow> (json \<Rightarrow> request \<Rightarrow> 'w \<Rightarrow> (exn + json) \<times> 'w) \<Rightarrow> (string \<Rightarrow> exn + pyfloat)
     \<Rightarrow> ('w state, unit) io" where
  "main ACCOUNTS bitget float_str =
     io_bind (io_print Starting) (\<lambda>_.
     io_bind
       (io_try
          (io_bind (io_lift (get_bitget_api_credentials ACCOUNTS)) (\<lambda>api_setup.
           io_bind (BitgetExchange_init bitget api_setup ''USDT-FUTURES'') (\<lambda>mgr.
           async_with (aenter mgr) (aexit mgr) (\<lambda>exchange. block exchange float_str))))
          (\<lambda>e. io_print (Error (str e)))) (\<lambda>_.
     io_print Completed))"


section \<open>Predicates and scenarios of the statements\<close>

text \<open>
  An operation that signals a rate limit on its first \<open>k\<close> invocations from a state and
  returns \<open>v\<close> on the next one, and does not sleep itself.
\<close>

fun rate_limited_then_ok :: "('s, json) io \<Rightarrow> nat \<Rightarrow> json \<Rightarrow> 's \<Rightarrow> bool" where
  "rate_limited_then_ok func 0 v s =
     (case func s of
        (Inr v', evs, s') \<Rightarrow> v' = v \<and> sleeps evs = []
      | (Inl e, evs, s') \<Rightarrow> False)"
| "rate_limited_then_ok func (Suc k) v s =
     (case func s of
        (Inr v', evs, s') \<Rightarrow> False
      | (Inl e, evs, s') \<Rightarrow>
          is_rate_limit e \<and> sleeps evs = [] \<and> rate_limited_then_ok func k v s')"

text \<open>Every event a coroutine emits, from whatever state, satisfies \<open>P\<close>.\<close>

definition emits_only :: "(event \<Rightarrow> bool) \<Rightarrow> ('s, 'a) io \<Rightarrow> bool" where
  "emits_only P m = (\<forall>s. \<forall>ev \<in> set (events_of (m s)). P ev)"

text \<open>
  The events of the cleanup steps: neither the close of the session nor the banner of the
  final verification.
\<close>

definition cleanup_event :: "event \<Rightarrow> bool" where
  "cleanup_event ev = (ev \<noteq> Invoke Close \<and> ev \<noteq> Print PerformingFinalVerification)"

text \<open>The \<^verbatim>\<open>planType\<close> that a query of the pending plan orders sends.\<close>

definition plan_type :: "request \<Rightarrow> exn + json" where
  "plan_type r =
     (case r of
        OrdersPlanPending params \<Rightarrow> py_getitem params ''planType''
      | _ \<Rightarrow> Inl (Exception ''not a query of the pending plan orders''))"

text \<open>
  \<open>operation\<close> is the loop of the decorator over the five attempts of \<open>func\<close>; and whichever
  attempt below the last one runs \<open>func\<close> from the state \<open>s\<close>, where its remote call \<open>req\<close>
  signals a rate limit and leaves the remote service in \<open>w'\<close>, the loop prints the notice
  of that attempt, sleeps the delay of that attempt and goes on with the attempts that
  remain.
\<close>

definition retried_after_rate_limit ::
  "('w state, json) io \<Rightarrow> ('w state, json) io \<Rightarrow> request \<Rightarrow> 'w state \<Rightarrow> 'w \<Rightarrow> bool" where
  "retried_after_rate_limit operation func req s w' =
     ((\<forall>s0. operation s0 = retry_loop MAX_RETRIES BASE_DELAY func [0, 1, 2, 3, 4] s0)
    \<and> (\<forall>attempt rest. 0 \<le> attempt \<and> attempt < MAX_RETRIES - 1 \<longrightarrow>
          retry_loop MAX_RETRIES BASE_DELAY func (attempt # rest) s =
            (case retry_loop MAX_RETRIES BASE_DELAY func rest (s\<lparr>remote := w'\<rparr>) of
               (r, evs, s') \<Rightarrow>
                 (r, Invoke req
                       # Print (RateLimitHit (attempt + 1) MAX_RETRIES (BASE_DELAY * 2 ^ nat attempt))
                       # Sleep (BASE_DELAY * 2 ^ nat attempt) # evs,
                  s'))))"

text \<open>
  The shape of a response that the limit-order fetch reads orders from: a dict whose
  \<^verbatim>\<open>data\<close> is a dict whose \<^verbatim>\<open>entrustedList\<close>, when it is there and not \<^verbatim>\<open>None\<close>, is a list of
  dicts.
\<close>

fun is_dict :: "json \<Rightarrow> bool" where
  "is_dict (JDict kvs) = True"
| "is_dict y = False"

definition expected_shape :: "json \<Rightarrow> bool" where
  "expected_shape response =
     (case response of
        JDict kvs \<Rightarrow>
          (case map_of kvs ''data'' of
             Some (JDict d) \<Rightarrow>
               (case map_of d ''entrustedList'' of
                  None \<Rightarrow> True
                | Some JNull \<Rightarrow> True
                | Some (JList os) \<Rightarrow> list_all is_dict os
                | Some y \<Rightarrow> False)
           | _ \<Rightarrow> False)
      | _ \<Rightarrow> False)"


text \<open>Lines 210 to 212 and 287: the three fields the run reads from a position.\<close>

definition position_fields :: "json \<Rightarrow> exn + json \<times> json \<times> json" where
  "position_fields position =
     exn_bind (py_getitem position ''symbol'') (\<lambda>symbol.
     exn_bind (py_getitem position ''side'') (\<lambda>side.
     exn_bind (py_getitem position ''contracts'') (\<lambda>contracts.
       Inr (symbol, side, contracts))))"

text \<open>
  The fetch of the positions (step 1), of the trigger orders (step 2) or of the TP/SL
  orders (step 3) raises \<open>e\<close> in a block started in \<open>s1\<close>, after the events \<open>evs\<close> of the block,
  leaving the state \<open>s2\<close>.
\<close>

definition stage_fetch_fails ::
  "'w BitgetExchange \<Rightarrow> (string \<Rightarrow> exn + pyfloat) \<Rightarrow> 'w state \<Rightarrow> exn \<Rightarrow> event list \<Rightarrow> 'w state \<Rightarrow> bool"
  where
  "stage_fetch_fails exchange float_str s1 e evs s2 =
     ((\<exists>evs_f. fetch_open_positions exchange float_str s1 = (Inl e, evs_f, s2)
         \<and> evs = Print FetchingPositions # evs_f)
    \<or> (\<exists>evs1 s' evs_f.
          step1_close_positions exchange float_str s1 = (Inr (), evs1, s')
        \<and> fetch_open_trigger_orders exchange JNull s' = (Inl e, evs_f, s2)
        \<and> evs = evs1 @ Print FetchingTriggerOrders # evs_f)
    \<or> (\<exists>evs1 s' evs2 s'' evs_f.
          step1_close_positions exchange float_str s1 = (Inr (), evs1, s')
        \<and> step2_cancel_trigger_orders exchange s' = (Inr (), evs2, s'')
        \<and> fetch_open_tpsl_orders exchange JNull s'' = (Inl e, evs_f, s2)
        \<and> evs = evs1 @ evs2 @ Print FetchingTpslOrders # evs_f))"

text \<open>
  Scenarios. The state of the remote service counts the calls made so far. Three
  operations: one signals a rate limit at every call, one at the first two calls only,
  one fails with another error.
\<close>

definition always_429 :: "(nat, json) io" where
  "always_429 = (\<lambda>n. (Inl (RateLimitExceeded ''429''), [Invoke Close], Suc n))"

definition ok_on_third :: "(nat, json) io" where
  "ok_on_third = (\<lambda>n.
     (if n < 2 then Inl (RateLimitExceeded ''429'') else Inr (JInt 7), [Invoke LoadMarkets], Suc n))"

definition always_boom :: "(nat, json) io" where
  "always_boom = (\<lambda>n. (Inl (Exception ''boom''), [Invoke Close], Suc n))"

text \<open>
  An account file, the credentials read from it, and the state of a run when the remote
  service has answered \<open>n\<close> calls.
\<close>

definition demo_accounts :: json where
  "demo_accounts =
     JDict [(''bitget1'', JDict [(''public_api'', JStr ''k''), (''secret_api'', JStr ''s''),
                                 (''password'', JStr ''p'')])]"

definition demo_credentials :: "(string \<times> json) list" where
  "demo_credentials = [(''apiKey'', JStr ''k''), (''secret'', JStr ''s''), (''password'', JStr ''p'')]"

definition after_calls :: "nat \<Rightarrow> nat state" where
  "after_calls n = \<lparr>remote = n, markets = JNull\<rparr>"

definition no_float :: "string \<Rightarrow> exn + pyfloat" where
  "no_float s = Inl (Exception ''could not convert string to float'')"

text \<open>The four queries of the run, for the product type of \<open>main\<close>.\<close>

definition positions_query :: request where
  "positions_query = FetchPositions (JDict [(''productType'', JStr ''USDT-FUTURES'')])"

definition trigger_orders_query :: request where
  "trigger_orders_query =
     OrdersPlanPending (JDict [(''productType'', JStr ''USDT-FUTURES''),
                               (''planType'', JStr ''normal_plan'')])"

definition tpsl_orders_query :: request where
  "tpsl_orders_query =
     OrdersPlanPending (JDict [(''productType'', JStr ''USDT-FUTURES''),
                               (''planType'', JStr ''profit_loss'')])"

definition limit_orders_query :: request where
  "limit_orders_query =
     OrdersPending (JDict [(''productType'', JStr ''USDT-FUTURES''), (''status'', JStr ''live'')])"

text \<open>
  A client with three open positions, where the close of the ETH position fails with an
  error that is not a rate limit; from its third call on only the ETH position is still
  open. No order is pending.
\<close>

definition demo_position :: "string \<Rightarrow> string \<Rightarrow> json" where
  "demo_position sy sd =
     JDict [(''symbol'', JStr sy), (''side'', JStr sd), (''contracts'', JFloat (Finite 2))]"

definition btc_position :: json where
  "btc_position = demo_position ''BTC/USDT:USDT'' ''long''"

definition eth_position :: json where
  "eth_position = demo_position ''ETH/USDT:USDT'' ''short''"

definition sol_position :: json where
  "sol_position = demo_position ''SOL/USDT:USDT'' ''long''"

fun demo_client :: "json \<Rightarrow> request \<Rightarrow> nat \<Rightarrow> (exn + json) \<times> nat" where
  "demo_client cfg (FetchPositions p) n =
     (Inr (JList (if n < 2 then [btc_position, eth_position, sol_position]
                  else [eth_position])), Suc n)"
| "demo_client cfg (ClosePosition sy sd) n =
     (if sy = JStr ''ETH/USDT:USDT'' then Inl (Exception ''boom'') else Inr JNull, Suc n)"
| "demo_client cfg (OrdersPlanPending p) n =
     (Inr (JDict [(''data'', JDict [(''entrustedList'', JList [])])]), Suc n)"
| "demo_client cfg (OrdersPending p) n =
     (Inr (JDict [(''data'', JDict [(''entrustedList'', JList [])])]), Suc n)"
| "demo_client cfg r n = (Inr JNull, Suc n)"

definition demo_exchange :: "nat BitgetExchange" where
  "demo_exchange = new_exchange demo_client demo_credentials ''USDT-FUTURES''"

text \<open>
  Clients where the load of the markets fails, where the fetch of the positions fails, and
  where every call signals a rate limit.
\<close>

fun markets_down_client :: "json \<Rightarrow> request \<Rightarrow> nat \<Rightarrow> (exn + json) \<times> nat" where
  "markets_down_client cfg LoadMarkets n = (Inl (Exception ''down''), Suc n)"
| "markets_down_client cfg r n = (Inr JNull, Suc n)"

fun positions_down_client :: "json \<Rightarrow> request \<Rightarrow> nat \<Rightarrow> (exn + json) \<times> nat" where
  "positions_down_client cfg (FetchPositions p) n = (Inl (Exception ''down''), Suc n)"
| "positions_down_client cfg r n = (Inr JNull, Suc n)"

definition positions_down_exchange :: "nat BitgetExchange" where
  "positions_down_exchange = new_exchange positions_down_client demo_credentials ''USDT-FUTURES''"

definition rate_limited_client :: "json \<Rightarrow> request \<Rightarrow> nat \<Rightarrow> (exn + json) \<times> nat" where
  "rate_limited_client cfg r n = (Inl (RateLimitExceeded ''429''), Suc n)"

definition rate_limited_exchange :: "nat BitgetExchange" where
  "rate_limited_exchange = new_exchange rate_limited_client demo_credentials ''USDT-FUTURES''"

text \<open>
  A client with no open position and no pending plan order, whose query of the pending
  orders (the limit orders) signals a rate limit at every call.
\<close>

fun limit_query_429_client :: "json \<Rightarrow> request \<Rightarrow> nat \<Rightarrow> (exn + json) \<times> nat" where
  "limit_query_429_client cfg (OrdersPending p) n = (Inl (RateLimitExceeded ''429''), Suc n)"
| "limit_query_429_client cfg (FetchPositions p) n = (Inr (JList []), Suc n)"
| "limit_query_429_client cfg (OrdersPlanPending p) n =
     (Inr (JDict [(''data'', JDict [(''entrustedList'', JList [])])]), Suc n)"
| "limit_query_429_client cfg r n = (Inr JNull, Suc n)"



definition limit_order :: json where
  "limit_order =
     JDict [(''symbol'', JStr ''ETHUSDT''), (''orderId'', JStr ''L1''), (''orderType'', JStr ''limit'')]"

definition market_order :: json where
  "market_order =
     JDict [(''symbol'', JStr ''ETHUSDT''), (''orderId'', JStr ''M1''), (''orderType'', JStr ''market'')]"

definition no_data_response :: json where
  "no_data_response = JDict [(''code'', JStr ''00000'')]"

fun orders_client :: "json \<Rightarrow> request \<Rightarrow> nat \<Rightarrow> (exn + json) \<times> nat" where
  "orders_client cfg (OrdersPending p) n =
     (Inr (if n = 0
           then JDict [(''data'', JDict [(''entrustedList'', JList [limit_order, market_order])])]
           else no_data_response), Suc n)"
| "orders_client cfg r n = (Inr JNull, Suc n)"

definition orders_exchange :: "nat BitgetExchange" where
  "orders_exchange = new_exchange orders_client demo_credentials ''USDT-FUTURES''"

section \<open>Laws of the effects\<close>

lemma io_bind_apply:
  "io_bind m f s =
     (case m s of
        (Inl e, evs, s') \<Rightarrow> (Inl e, evs, s')
      | (Inr x, evs, s') \<Rightarrow> (case f x s' of (r, evs', s'') \<Rightarrow> (r, evs @ evs', s'')))"
  by (simp add: io_bind_def)

lemma io_try_apply:
  "io_try m h s =
     (case m s of
        (Inl e, evs, s') \<Rightarrow> (case h e s' of (r, evs', s'') \<Rightarrow> (r, evs @ evs', s''))
      | (Inr x, evs, s') \<Rightarrow> (Inr x, evs, s'))"
  by (simp add: io_try_def)

lemma io_return_apply [simp]: "io_return x s = (Inr x, [], s)"
  by (simp add: io_return_def)

lemma io_raise_apply [simp]: "io_raise e s = (Inl e, [], s)"
  by (simp add: io_raise_def)

lemma io_lift_apply [simp]: "io_lift r s = (r, [], s)"
  by (simp add: io_lift_def)

lemma io_print_apply [simp]: "io_print m s = (Inr (), [Print m], s)"
  by (simp add: io_print_def)

lemma io_sleep_apply [simp]: "io_sleep d s = (Inr (), [Sleep d], s)"
  by (simp add: io_sleep_def)

lemma invocations_append [simp]: "invocations (xs @ ys) = invocations xs @ invocations ys"
  by (induction xs rule: invocations.induct) simp_all

lemma sleeps_append [simp]: "sleeps (xs @ ys) = sleeps xs @ sleeps ys"
  by (induction xs rule: sleeps.induct) simp_all

lemma prints_append [simp]: "prints (xs @ ys) = prints xs @ prints ys"
  by (induction xs rule: prints.induct) simp_all

lemma is_rate_limit_RateLimitExceeded [simp]: "is_rate_limit (RateLimitExceeded m)"
  by (simp add: is_rate_limit_def)

lemma not_rate_limit_boom: "\<not> is_rate_limit (Exception ''boom'')"
  by (simp add: is_rate_limit_def startswith_def rate_limit_prefix_def)

lemma events_of_simp [simp]: "events_of (r, evs, s) = evs"
  by (simp add: events_of_def)

lemma result_of_simp [simp]: "result_of (r, evs, s) = r"
  by (simp add: result_of_def)

lemma state_of_simp [simp]: "state_of (r, evs, s) = s"
  by (simp add: state_of_def)

lemma io_bind_ok:
  "m s = (Inr x, evs, s') \<Longrightarrow>
   io_bind m f s = (case f x s' of (r, evs', s'') \<Rightarrow> (r, evs @ evs', s''))"
  by (simp add: io_bind_apply)

lemma io_bind_raise: "m s = (Inl e, evs, s') \<Longrightarrow> io_bind m f s = (Inl e, evs, s')"
  by (simp add: io_bind_apply)

lemma call_raise:
  "client self req (remote s) = (Inl e, w') \<Longrightarrow> call self req s = (Inl e, [Invoke req], s\<lparr>remote := w'\<rparr>)"
  by (simp add: call_def)

lemma call_ok:
  "client self req (remote s) = (Inr v, w') \<Longrightarrow> call self req s = (Inr v, [Invoke req], s\<lparr>remote := w'\<rparr>)"
  by (simp add: call_def)

lemma set_invocations: "set (invocations evs) = {r. Invoke r \<in> set evs}"
  by (induction evs rule: invocations.induct) auto

section \<open>Events of composed coroutines\<close>

lemma emits_onlyD: "emits_only P m \<Longrightarrow> ev \<in> set (events_of (m s)) \<Longrightarrow> P ev"
  by (simp add: emits_only_def)

lemma emits_only_events:
  "emits_only P m \<Longrightarrow> m s = (r, evs, s') \<Longrightarrow> \<forall>ev \<in> set evs. P ev"
  by (auto simp add: emits_only_def dest!: spec [of _ s])

lemma emits_only_mono: "emits_only P m \<Longrightarrow> (\<And>ev. P ev \<Longrightarrow> Q ev) \<Longrightarrow> emits_only Q m"
  by (simp add: emits_only_def)

lemma emits_only_return [intro!]: "emits_only P (io_return x)"
  by (simp add: emits_only_def)

lemma emits_only_raise [intro!]: "emits_only P (io_raise e)"
  by (simp add: emits_only_def)

lemma emits_only_lift [intro!]: "emits_only P (io_lift r)"
  by (simp add: emits_only_def)

lemma emits_only_print [intro!]: "P (Print m) \<Longrightarrow> emits_only P (io_print m)"
  by (simp add: emits_only_def)

lemma emits_only_sleep [intro!]: "P (Sleep d) \<Longrightarrow> emits_only P (io_sleep d)"
  by (simp add: emits_only_def)

lemma emits_only_call [intro!]: "P (Invoke req) \<Longrightarrow> emits_only P (call self req)"
  by (simp add: emits_only_def call_def split: prod.splits)

lemma emits_only_if [intro!]:
  "(c \<Longrightarrow> emits_only P m) \<Longrightarrow> (\<not> c \<Longrightarrow> emits_only P n) \<Longrightarrow> emits_only P (if c then m else n)"
  by simp

lemma emits_only_bind [intro!]:
  "emits_only P m \<Longrightarrow> (\<And>x. emits_only P (f x)) \<Longrightarrow> emits_only P (io_bind m f)"
  unfolding emits_only_def
proof (intro allI ballI)
  fix s ev
  assume m: "\<forall>s. \<forall>ev\<in>set (events_of (m s)). P ev"
    and f: "\<And>x. \<forall>s. \<forall>ev\<in>set (events_of (f x s)). P ev"
    and ev: "ev \<in> set (events_of (io_bind m f s))"
  obtain r evs s' where ms: "m s = (r, evs, s')" by (cases "m s") auto
  from m ms have evs: "\<forall>ev \<in> set evs. P ev" by (metis events_of_simp)
  show "P ev"
  proof (cases r)
    case (Inl e)
    with ms ev evs show ?thesis by (simp add: io_bind_apply)
  next
    case (Inr x)
    obtain r' evs' s'' where fs: "f x s' = (r', evs', s'')" by (cases "f x s'") auto
    from f [of x] fs have "\<forall>ev \<in> set evs'. P ev" by (metis events_of_simp)
    with Inr ms fs ev evs show ?thesis by (auto simp add: io_bind_apply)
  qed
qed

lemma emits_only_try [intro!]:
  "emits_only P m \<Longrightarrow> (\<And>e. emits_only P (h e)) \<Longrightarrow> emits_only P (io_try m h)"
  unfolding emits_only_def
proof (intro allI ballI)
  fix s ev
  assume m: "\<forall>s. \<forall>ev\<in>set (events_of (m s)). P ev"
    and h: "\<And>e. \<forall>s. \<forall>ev\<in>set (events_of (h e s)). P ev"
    and ev: "ev \<in> set (events_of (io_try m h s))"
  obtain r evs s' where ms: "m s = (r, evs, s')" by (cases "m s") auto
  from m ms have evs: "\<forall>ev \<in> set evs. P ev" by (metis events_of_simp)
  show "P ev"
  proof (cases r)
    case (Inr x)
    with ms ev evs show ?thesis by (simp add: io_try_apply)
  next
    case (Inl e)
    obtain r' evs' s'' where hs: "h e s' = (r', evs', s'')" by (cases "h e s'") auto
    from h [of e] hs have "\<forall>ev \<in> set evs'. P ev" by (metis events_of_simp)
    with Inl ms hs ev evs show ?thesis by (auto simp add: io_try_apply)
  qed
qed

lemma cleanup_event_simps [simp]:
  "cleanup_event (Sleep d)"
  "cleanup_event (Print m) = (m \<noteq> PerformingFinalVerification)"
  "cleanup_event (Invoke r) = (r \<noteq> Close)"
  by (simp_all add: cleanup_event_def)

section \<open>One attempt of the retry loop\<close>

lemma retry_loop_Nil [simp]: "retry_loop N D func [] s = (Inr JNull, [], s)"
  by simp

lemma retry_loop_ok:
  "func s = (Inr v, evs, s') \<Longrightarrow> retry_loop N D func (a # rest) s = (Inr v, evs, s')"
  by (simp add: io_try_apply)

lemma retry_loop_fatal:
  "func s = (Inl e, evs, s') \<Longrightarrow> \<not> (is_rate_limit e \<and> a < N - 1) \<Longrightarrow>
   retry_loop N D func (a # rest) s = (Inl (operation_failed e), evs, s')"
  by (auto simp add: io_try_apply)

lemma retry_loop_backoff:
  "func s = (Inl e, evs, s') \<Longrightarrow> is_rate_limit e \<Longrightarrow> a < N - 1 \<Longrightarrow>
   retry_loop N D func (a # rest) s =
     (case retry_loop N D func rest s' of
        (r, evs', s'') \<Rightarrow>
          (r, evs @ Print (RateLimitHit (a + 1) N (D * 2 ^ nat a)) # Sleep (D * 2 ^ nat a) # evs',
           s''))"
  by (simp add: io_try_apply io_bind_apply Let_def split: prod.splits)

declare retry_loop.simps(2) [simp del]

lemma py_range_Cons: "1 \<le> N \<Longrightarrow> py_range N = 0 # map int [1..<nat N]"
  by (simp add: py_range_def upt_conv_Cons)

lemma upt_int_Cons: "i < n \<Longrightarrow> map int [i..<n] = int i # map int [Suc i..<n]"
  by (simp add: upt_conv_Cons)

lemma retry_loop_always_rate_limited:
  assumes rl: "\<And>s. \<exists>e evs s'. func s = (Inl e, evs, s') \<and> is_rate_limit e
                 \<and> invocations evs = [r] \<and> sleeps evs = []"
  shows "i < n \<Longrightarrow> n = nat N \<Longrightarrow>
     \<exists>e evs s'. retry_loop N D func (map int [i..<n]) s = (Inl (operation_failed e), evs, s')
        \<and> is_rate_limit e
        \<and> invocations evs = replicate (n - i) r
        \<and> sleeps evs = map (\<lambda>j. D * 2 ^ j) [i..<n - 1]"
proof (induction "n - i" arbitrary: i s)
  case 0
  then show ?case by simp
next
  case (Suc d)
  from rl [of s] obtain e evs s' where f: "func s = (Inl e, evs, s')" and e: "is_rate_limit e"
    and inv: "invocations evs = [r]" and sl: "sleeps evs = []" by blast
  show ?case
  proof (cases "Suc i < n")
    case False
    with Suc.prems have last: "n = Suc i" by simp
    with Suc.prems have "\<not> (int i < N - 1)" by linarith
    with f have "retry_loop N D func (int i # []) s = (Inl (operation_failed e), evs, s')"
      by (intro retry_loop_fatal) auto
    with last e inv sl show ?thesis by auto
  next
    case True
    with Suc.prems have lt: "int i < N - 1" by linarith
    from Suc.hyps True have d: "d = n - Suc i" by simp
    from Suc.hyps(1) [OF d True Suc.prems(2), of s'] obtain e' evs' s''
      where rec: "retry_loop N D func (map int [Suc i..<n]) s' =
          (Inl (operation_failed e'), evs', s'')"
        and e': "is_rate_limit e'"
        and inv': "invocations evs' = replicate (n - Suc i) r"
        and sl': "sleeps evs' = map (\<lambda>j. D * 2 ^ j) [Suc i..<n - 1]" by blast
    have "retry_loop N D func (map int [i..<n]) s =
        (Inl (operation_failed e'),
         evs @ Print (RateLimitHit (int i + 1) N (D * 2 ^ i)) # Sleep (D * 2 ^ i) # evs', s'')"
      using retry_loop_backoff [where func = func and s = s and rest = "map int [Suc i..<n]"
          and D = D, OF f e lt] rec Suc.prems
      by (simp add: upt_int_Cons)
    moreover have "replicate (n - i) r = r # replicate (n - Suc i) r"
      using True by (simp add: Suc_diff_Suc flip: replicate_Suc)
    moreover have "[i..<n - 1] = i # [Suc i..<n - 1]"
      using True by (simp add: upt_conv_Cons)
    ultimately show ?thesis using e' inv inv' sl sl' by auto
  qed
qed

lemma retry_loop_rate_limited_then_ok:
  "rate_limited_then_ok func k v s \<Longrightarrow> int (i + k) < N \<Longrightarrow>
   \<exists>evs s'. retry_loop N D func (map int [i..<nat N]) s = (Inr v, evs, s')
      \<and> sleeps evs = map (\<lambda>j. D * 2 ^ j) [i..<i + k]"
proof (induction k arbitrary: i s)
  case 0
  then obtain evs s' where f: "func s = (Inr v, evs, s')" and sl: "sleeps evs = []"
    by (auto split: prod.splits sum.splits)
  from 0 have "i < nat N" by linarith
  with f sl show ?case
    by (simp add: upt_int_Cons retry_loop_ok)
next
  case (Suc k)
  then obtain e evs s' where f: "func s = (Inl e, evs, s')" and e: "is_rate_limit e"
    and sl: "sleeps evs = []" and rest: "rate_limited_then_ok func k v s'"
    by (auto split: prod.splits sum.splits)
  from Suc.prems have lt: "int i < N - 1" and i: "i < nat N" by linarith+
  from Suc.prems have "int (Suc i + k) < N" by simp
  from Suc.IH [OF rest this] obtain evs' s''
    where rec: "retry_loop N D func (map int [Suc i..<nat N]) s' = (Inr v, evs', s'')"
      and sl': "sleeps evs' = map (\<lambda>j. D * 2 ^ j) [Suc i..<Suc i + k]" by blast
  have "retry_loop N D func (map int [i..<nat N]) s =
      (Inr v, evs @ Print (RateLimitHit (int i + 1) N (D * 2 ^ i)) # Sleep (D * 2 ^ i) # evs', s'')"
    using retry_loop_backoff [where func = func and s = s and rest = "map int [Suc i..<nat N]"
        and D = D, OF f e lt] rec i
    by (simp add: upt_int_Cons)
  moreover have "[i..<i + Suc k] = i # [Suc i..<Suc i + k]"
    by (simp add: upt_conv_Cons)
  ultimately show ?case using sl sl' by simp
qed

lemma sum_list_backoff: "sum_list (map (\<lambda>j. D * 2 ^ j) [0..<k]) = D * (2 ^ k - (1::int))"
  by (induction k) (simp_all add: algebra_simps)

lemma retry_async_ok:
  "func s = (Inr v, evs, s') \<Longrightarrow> 1 \<le> N \<Longrightarrow> retry_async N D func s = (Inr v, evs, s')"
  by (simp add: retry_async_def py_range_Cons retry_loop_ok)

lemma py_range_MAX_RETRIES: "py_range MAX_RETRIES = [0, 1, 2, 3, 4]"
  by (simp add: py_range_def MAX_RETRIES_def upt_rec)

lemma retry_loop_invocations:
  assumes "\<And>s. invocations (events_of (func s)) = [r]"
  shows "\<exists>k. invocations (events_of (retry_loop N D func as s)) = replicate k r
            \<and> k \<le> length as \<and> (as \<noteq> [] \<longrightarrow> 1 \<le> k)"
proof (induction as arbitrary: s)
  case Nil
  show ?case by simp
next
  case (Cons a as)
  obtain res evs s' where f: "func s = (res, evs, s')" by (cases "func s") auto
  with assms [of s] have evs: "invocations evs = [r]" by simp
  show ?case
  proof (cases res)
    case (Inr v)
    with f evs have "invocations (events_of (retry_loop N D func (a # as) s)) = replicate 1 r"
      by (simp add: retry_loop_ok)
    then show ?thesis by (intro exI [of _ 1]) simp
  next
    case (Inl e)
    show ?thesis
    proof (cases "is_rate_limit e \<and> a < N - 1")
      case False
      with Inl f evs have "invocations (events_of (retry_loop N D func (a # as) s)) = replicate 1 r"
        by (simp add: retry_loop_fatal)
      then show ?thesis by (intro exI [of _ 1]) simp
    next
      case True
      from Cons [of s'] obtain k where k: "invocations (events_of (retry_loop N D func as s')) = replicate k r"
        and le: "k \<le> length as" by blast
      from True Inl f have "retry_loop N D func (a # as) s =
          (case retry_loop N D func as s' of
             (r, evs', s'') \<Rightarrow>
               (r, evs @ Print (RateLimitHit (a + 1) N (D * 2 ^ nat a)) # Sleep (D * 2 ^ nat a) # evs', s''))"
        by (simp add: retry_loop_backoff)
      with k evs have "invocations (events_of (retry_loop N D func (a # as) s)) = replicate (Suc k) r"
        by (simp split: prod.splits)
      with le show ?thesis by (intro exI [of _ "Suc k"]) simp
    qed
  qed
qed

lemma emits_only_retry_loop:
  assumes "emits_only P func" and "\<And>a b c. P (Print (RateLimitHit a b c))" and "\<And>d. P (Sleep d)"
  shows "emits_only P (retry_loop N D func as)"
proof (induction as)
  case Nil
  show ?case by (simp add: emits_only_def)
next
  case (Cons a as)
  show ?case
    unfolding retry_loop.simps Let_def
    using assms Cons by (intro emits_only_try) auto
qed

lemma emits_only_retry_async [intro!]:
  "emits_only P func \<Longrightarrow> (\<And>a b c. P (Print (RateLimitHit a b c))) \<Longrightarrow> (\<And>d. P (Sleep d)) \<Longrightarrow>
   emits_only P (retry_async N D func)"
  by (simp add: retry_async_def emits_only_retry_loop)

lemma retried_after_rate_limitI:
  assumes "func s = (Inl e, [Invoke req], s\<lparr>remote := w'\<rparr>)" and "is_rate_limit e"
  shows "retried_after_rate_limit (retry_async MAX_RETRIES BASE_DELAY func) func req s w'"
  unfolding retried_after_rate_limit_def
proof (intro conjI allI impI)
  fix s0
  show "retry_async MAX_RETRIES BASE_DELAY func s0 =
      retry_loop MAX_RETRIES BASE_DELAY func [0, 1, 2, 3, 4] s0"
    by (simp add: retry_async_def py_range_MAX_RETRIES)
next
  fix attempt rest
  assume "0 \<le> attempt \<and> attempt < MAX_RETRIES - 1"
  then have "attempt < MAX_RETRIES - 1" by simp
  from retry_loop_backoff [where func = func and s = s and rest = rest and D = BASE_DELAY,
      OF assms this]
  show "retry_loop MAX_RETRIES BASE_DELAY func (attempt # rest) s =
      (case retry_loop MAX_RETRIES BASE_DELAY func rest (s\<lparr>remote := w'\<rparr>) of
         (r, evs, s') \<Rightarrow>
           (r, Invoke req
                 # Print (RateLimitHit (attempt + 1) MAX_RETRIES (BASE_DELAY * 2 ^ nat attempt))
                 # Sleep (BASE_DELAY * 2 ^ nat attempt) # evs,
            s'))"
    by (simp split: prod.splits)
qed

section \<open>The retry policy\<close>

text \<open>
  C1, as amended. For every max-attempt value \<open>N\<close> of at least 1 and every base delay \<open>D\<close>, a
  wrapped operation that signals a rate limit at every attempt, each attempt being one
  remote call \<open>r\<close>, is attempted exactly \<open>N\<close> times, with the sleeps \<open>D * 2 ^ 0\<close>, ...,
  \<open>D * 2 ^ (N - 2)\<close> between the attempts, and then raises the wrapped error of the last
  rate-limit error.
\<close>

theorem retry_async_always_rate_limited:
  assumes "\<And>s. \<exists>e evs s'. func s = (Inl e, evs, s') \<and> is_rate_limit e
                 \<and> invocations evs = [r] \<and> sleeps evs = []"
    and "1 \<le> N"
  shows "\<exists>e evs s'.
     retry_async N D func s = (Inl (operation_failed e), evs, s')
     \<and> is_rate_limit e
     \<and> invocations evs = replicate (nat N) r
     \<and> sleeps evs = map (\<lambda>j. D * 2 ^ j) [0..<nat N - 1]"
  using retry_loop_always_rate_limited [of func r 0 "nat N" N D s] assms
  by (simp add: retry_async_def py_range_def)

theorem retry_async_always_rate_limited_witness:
  "\<exists>e evs s'. retry_async 3 2 always_429 0 = (Inl (operation_failed e), evs, s')
     \<and> is_rate_limit e \<and> invocations evs = [Close, Close, Close] \<and> sleeps evs = [2, 4]"
  using retry_async_always_rate_limited [of always_429 Close 3 2 0]
  by (simp add: always_429_def numeral_3_eq_3 upt_rec)

text \<open>
  The claim C1 as stated fails at the max-attempt value 0: the loop of the wrapper has no
  iteration, the operation is not attempted and the wrapper returns \<^verbatim>\<open>None\<close>, with no error.
\<close>

theorem retry_async_zero_attempts_counterexample:
  "retry_async 0 1 always_429 0 = (Inr JNull, [], 0)"
  by (simp add: retry_async_def py_range_def)

text \<open>
  C8. A wrapped operation whose first attempt fails with an error that is not a rate limit
  is not retried: the wrapper raises the wrapped error, whose message carries the text of
  the original one, and the events and the state are those of the single attempt (no
  sleep, no second call).
\<close>

theorem retry_async_not_rate_limit:
  assumes "func s = (Inl e, evs, s')" and "\<not> is_rate_limit e" and "1 \<le> N"
  shows "retry_async N D func s = (Inl (operation_failed e), evs, s')
     \<and> operation_failed e = Exception (''BitgetExchange operation failed: '' @ str e)"
  using assms by (simp add: retry_async_def py_range_Cons retry_loop_fatal operation_failed_def)

theorem retry_async_not_rate_limit_witness:
  "retry_async MAX_RETRIES BASE_DELAY always_boom 0 =
     (Inl (Exception ''BitgetExchange operation failed: boom''), [Invoke Close], 1)"
  using retry_async_not_rate_limit [of always_boom 0 "Exception ''boom''" "[Invoke Close]" 1
      MAX_RETRIES BASE_DELAY]
  by (simp add: not_rate_limit_boom operation_failed_def always_boom_def MAX_RETRIES_def)

text \<open>
  C9. For every \<open>k < N\<close>, a wrapped operation that signals a rate limit at its first \<open>k\<close>
  attempts and returns \<open>v\<close> at attempt \<open>k + 1\<close> returns \<open>v\<close>, after the sleeps \<open>D * 2 ^ 0\<close>, ...,
  \<open>D * 2 ^ (k - 1)\<close>, whose sum is \<open>D * (2 ^ k - 1)\<close>.
\<close>

theorem retry_async_rate_limited_then_ok:
  assumes "int k < N" and "rate_limited_then_ok func k v s"
  shows "\<exists>evs s'. retry_async N D func s = (Inr v, evs, s')
      \<and> sleeps evs = map (\<lambda>j. D * 2 ^ j) [0..<k]
      \<and> sum_list (sleeps evs) = D * (2 ^ k - 1)"
proof -
  from retry_loop_rate_limited_then_ok [OF assms(2), of 0 N D] assms(1)
  obtain evs s' where "retry_loop N D func (map int [0..<nat N]) s = (Inr v, evs, s')"
    and sl: "sleeps evs = map (\<lambda>j. D * 2 ^ j) [0..<k]" by auto
  then have "retry_async N D func s = (Inr v, evs, s')"
    by (simp add: retry_async_def py_range_def)
  with sl show ?thesis by (simp add: sum_list_backoff)
qed

theorem retry_async_rate_limited_then_ok_witness:
  "\<exists>evs s'. retry_async 5 1 ok_on_third 0 = (Inr (JInt 7), evs, s')
     \<and> sleeps evs = [1, 2] \<and> sum_list (sleeps evs) = 3"
  using retry_async_rate_limited_then_ok [of 2 5 ok_on_third "JInt 7" 0 1]
  by (simp add: ok_on_third_def numeral_2_eq_2 upt_rec)

section \<open>The retry policy on the operations of the wrapper\<close>

lemma with_symbol_JNull [simp]: "with_symbol base JNull = Inr (JDict base)"
  by (simp add: with_symbol_def)

lemma with_symbol_lookup:
  "with_symbol base symbol = Inr params \<Longrightarrow> map_of base k = Some v \<Longrightarrow> py_getitem params k = Inr v"
  by (auto simp add: with_symbol_def exn_bind_def split: if_splits sum.splits)

text \<open>
  The eight operations whose coroutine lets the error of its remote call \<open>req\<close> through: when
  that call signals a rate limit at an attempt below the last, the operation prints the
  notice of the attempt, sleeps \<open>BASE_DELAY * 2 ^ attempt\<close> and goes on with the attempts that
  remain.
\<close>

lemma wrapped_operations_retried:
  assumes rl: "is_rate_limit e"
    and c: "client self req (remote s) = (Inl e, w')"
    and sym: "format_symbol symbol = Inr fsym"
  shows
    "(req = Close \<longrightarrow> retried_after_rate_limit (close self) (close_func self) req s w')
   \<and> (req = LoadMarkets \<longrightarrow>
        retried_after_rate_limit (load_markets self) (load_markets_func self) req s w')
   \<and> (req = FetchPositions (JDict [(''productType'', JStr (product_type self))]) \<longrightarrow>
        retried_after_rate_limit (fetch_open_positions self float_str)
          (fetch_open_positions_func self float_str) req s w')
   \<and> (req = ClosePosition symbol side \<longrightarrow>
        retried_after_rate_limit (flash_close_position self symbol side)
          (flash_close_position_func self symbol side) req s w')
   \<and> (req = OrdersPlanPending (JDict [(''productType'', JStr (product_type self)),
                                      (''planType'', JStr ''normal_plan'')]) \<longrightarrow>
        retried_after_rate_limit (fetch_open_trigger_orders self JNull)
          (fetch_open_trigger_orders_func self JNull) req s w')
   \<and> (req = OrdersPlanPending (JDict [(''productType'', JStr (product_type self)),
                                      (''planType'', JStr ''profit_loss'')]) \<longrightarrow>
        retried_after_rate_limit (fetch_open_tpsl_orders self JNull)
          (fetch_open_tpsl_orders_func self JNull) req s w')
   \<and> (req = CancelPlanOrder (JDict [(''productType'', JStr (product_type self)),
                                    (''marginCoin'', JStr (margin_coin self)),
                                    (''symbol'', fsym), (''orderId'', order_id)]) \<longrightarrow>
        retried_after_rate_limit (cancel_trigger_order self symbol order_id)
          (cancel_trigger_order_func self symbol order_id) req s w')
   \<and> (req = CancelOrder (JDict [(''productType'', JStr (product_type self)),
                                (''marginCoin'', JStr (margin_coin self)),
                                (''symbol'', fsym), (''orderId'', order_id)]) \<longrightarrow>
        retried_after_rate_limit (cancel_limit_order self symbol order_id)
          (cancel_limit_order_func self symbol order_id) req s w')"
proof -
  note cr = call_raise [OF c]
  have 1: "retried_after_rate_limit (close self) (close_func self) req s w'"
    if "req = Close"
    unfolding close_def
    by (rule retried_after_rate_limitI [OF _ rl])
      (use cr that in \<open>simp add: close_func_def io_bind_apply\<close>)
  have 2: "retried_after_rate_limit (load_markets self) (load_markets_func self) req s w'"
    if "req = LoadMarkets"
    unfolding load_markets_def
    by (rule retried_after_rate_limitI [OF _ rl])
      (use cr that in \<open>simp add: load_markets_func_def io_bind_apply\<close>)
  have 3: "retried_after_rate_limit (fetch_open_positions self float_str)
        (fetch_open_positions_func self float_str) req s w'"
    if "req = FetchPositions (JDict [(''productType'', JStr (product_type self))])"
    unfolding fetch_open_positions_def
    by (rule retried_after_rate_limitI [OF _ rl])
      (use cr that in \<open>simp add: fetch_open_positions_func_def io_bind_apply\<close>)
  have 4: "retried_after_rate_limit (flash_close_position self symbol side)
        (flash_close_position_func self symbol side) req s w'"
    if "req = ClosePosition symbol side"
    unfolding flash_close_position_def
    by (rule retried_after_rate_limitI [OF _ rl])
      (use cr that in \<open>simp add: flash_close_position_func_def io_try_apply io_bind_apply\<close>)
  have 5: "retried_after_rate_limit (fetch_open_trigger_orders self JNull)
        (fetch_open_trigger_orders_func self JNull) req s w'"
    if "req = OrdersPlanPending (JDict [(''productType'', JStr (product_type self)),
                                        (''planType'', JStr ''normal_plan'')])"
    unfolding fetch_open_trigger_orders_def
    by (rule retried_after_rate_limitI [OF _ rl])
      (use cr that in \<open>simp add: fetch_open_trigger_orders_func_def io_bind_apply\<close>)
  have 6: "retried_after_rate_limit (fetch_open_tpsl_orders self JNull)
        (fetch_open_tpsl_orders_func self JNull) req s w'"
    if "req = OrdersPlanPending (JDict [(''productType'', JStr (product_type self)),
                                        (''planType'', JStr ''profit_loss'')])"
    unfolding fetch_open_tpsl_orders_def
    by (rule retried_after_rate_limitI [OF _ rl])
      (use cr that in \<open>simp add: fetch_open_tpsl_orders_func_def io_bind_apply\<close>)
  have 7: "retried_after_rate_limit (cancel_trigger_order self symbol order_id)
        (cancel_trigger_order_func self symbol order_id) req s w'"
    if "req = CancelPlanOrder (JDict [(''productType'', JStr (product_type self)),
                                      (''marginCoin'', JStr (margin_coin self)),
                                      (''symbol'', fsym), (''orderId'', order_id)])"
    unfolding cancel_trigger_order_def
    by (rule retried_after_rate_limitI [OF _ rl])
      (use cr that sym in
        \<open>simp add: cancel_trigger_order_func_def cancel_params_def exn_bind_def io_bind_apply\<close>)
  have 8: "retried_after_rate_limit (cancel_limit_order self symbol order_id)
        (cancel_limit_order_func self symbol order_id) req s w'"
    if "req = CancelOrder (JDict [(''productType'', JStr (product_type self)),
                                  (''marginCoin'', JStr (margin_coin self)),
                                  (''symbol'', fsym), (''orderId'', order_id)])"
    unfolding cancel_limit_order_def
    by (rule retried_after_rate_limitI [OF _ rl])
      (use cr that sym in
        \<open>simp add: cancel_limit_order_func_def cancel_params_def exn_bind_def io_bind_apply\<close>)
  from 1 2 3 4 5 6 7 8 show ?thesis by blast
qed

lemma demo_creds: "get_bitget_api_credentials demo_accounts = Inr (JDict demo_credentials)"
  by code_simp

text \<open>
  C5. The decorator is applied to the fetch of the limit orders as it is to the other
  operations (line 120), but the handler of lines 142 to 144 inside the coroutine catches
  the rate limit of the remote call before the decorator sees it. With a client that
  signals a rate limit, the fetch of the limit orders makes one call, prints the error and
  returns the empty list, with no sleep and no second call, where the fetch of the trigger
  orders makes five calls with the sleeps 1, 2, 4 and 8 and raises the wrapped error. With
  a client whose query of the pending orders alone signals a rate limit, the run makes one
  call of that query in step 4 and one in the verification, retries neither, and reports
  that all orders are canceled.
\<close>

theorem fetch_open_limit_orders_rate_limit_not_retried:
  "fetch_open_limit_orders rate_limited_exchange JNull (after_calls 0) =
     (Inr (JList []), [Invoke limit_orders_query, Print (ErrorFetchingLimitOrders ''429'')],
      after_calls 1)
   \<and> fetch_open_trigger_orders rate_limited_exchange JNull (after_calls 0) =
     (Inl (Exception ''BitgetExchange operation failed: 429''),
      [Invoke trigger_orders_query, Print (RateLimitHit 1 5 1), Sleep 1,
       Invoke trigger_orders_query, Print (RateLimitHit 2 5 2), Sleep 2,
       Invoke trigger_orders_query, Print (RateLimitHit 3 5 4), Sleep 4,
       Invoke trigger_orders_query, Print (RateLimitHit 4 5 8), Sleep 8,
       Invoke trigger_orders_query],
      after_calls 5)
   \<and> main demo_accounts limit_query_429_client no_float (after_calls 0) =
     (Inr (),
      [Print Starting, Invoke LoadMarkets,
       Print FetchingPositions, Invoke positions_query, Print NoOpenPositions,
       Print FetchingTriggerOrders, Invoke trigger_orders_query, Print NoTriggerOrders,
       Print FetchingTpslOrders, Invoke tpsl_orders_query, Print NoTpslOrders,
       Print FetchingLimitOrders, Invoke limit_orders_query,
       Print (ErrorFetchingLimitOrders ''429''), Print NoLimitOrders,
       Print PerformingFinalVerification,
       Invoke positions_query, Invoke trigger_orders_query, Invoke tpsl_orders_query,
       Invoke limit_orders_query, Print (ErrorFetchingLimitOrders ''429''),
       Print AllPositionsClosed, Print AllOrdersCanceled,
       Invoke Close, Print Completed],
      after_calls 10)"
  by code_simp

section \<open>The queries of the pending orders\<close>

lemma fetch_open_trigger_orders_func_emits:
  "emits_only (\<lambda>ev. \<forall>r. ev = Invoke r \<longrightarrow>
      (\<exists>params. r = OrdersPlanPending params \<and> py_getitem params ''planType'' = Inr (JStr ''normal_plan'')))
     (fetch_open_trigger_orders_func self symbol)"
proof (cases "with_symbol [(''productType'', JStr (product_type self)), (''planType'', JStr ''normal_plan'')] symbol")
  case (Inl e)
  then show ?thesis
    by (simp add: fetch_open_trigger_orders_func_def emits_only_def io_bind_apply)
next
  case (Inr params)
  from with_symbol_lookup [OF this, of "''planType''"]
  have "py_getitem params ''planType'' = Inr (JStr ''normal_plan'')" by simp
  then show ?thesis
    by (auto simp add: fetch_open_trigger_orders_func_def Inr emits_only_def io_bind_apply call_def
        split: prod.splits sum.splits)
qed

text \<open>
  C4, as amended. Every query that the fetch of the trigger orders sends for the pending
  plan orders carries the plan type \<^verbatim>\<open>normal_plan\<close>.
\<close>

theorem fetch_open_trigger_orders_plan_type:
  assumes "r \<in> set (invocations (events_of (fetch_open_trigger_orders self symbol s)))"
  shows "\<exists>params. r = OrdersPlanPending params \<and> py_getitem params ''planType'' = Inr (JStr ''normal_plan'')"
proof -
  have "emits_only (\<lambda>ev. \<forall>r. ev = Invoke r \<longrightarrow>
      (\<exists>params. r = OrdersPlanPending params \<and> py_getitem params ''planType'' = Inr (JStr ''normal_plan'')))
     (fetch_open_trigger_orders self symbol)"
    unfolding fetch_open_trigger_orders_def
    by (intro emits_only_retry_async fetch_open_trigger_orders_func_emits) simp_all
  from emits_onlyD [OF this, of "Invoke r" s] assms show ?thesis
    by (simp add: set_invocations)
qed

theorem fetch_open_trigger_orders_plan_type_witness:
  "invocations (events_of (fetch_open_trigger_orders demo_exchange JNull (after_calls 0))) =
     [trigger_orders_query]
   \<and> (\<exists>params. trigger_orders_query = OrdersPlanPending params
         \<and> py_getitem params ''planType'' = Inr (JStr ''normal_plan''))"
proof -
  have "invocations (events_of (fetch_open_trigger_orders demo_exchange JNull (after_calls 0))) =
     [trigger_orders_query]"
    by code_simp
  with fetch_open_trigger_orders_plan_type
    [of trigger_orders_query demo_exchange JNull "after_calls 0"]
  show ?thesis by simp
qed

text \<open>
  The claim C4 as stated names the plan type \<^verbatim>\<open>normal\<close>; the query sent carries
  \<^verbatim>\<open>normal_plan\<close>.
\<close>

theorem fetch_open_trigger_orders_plan_type_counterexample:
  "map plan_type
     (invocations (events_of (fetch_open_trigger_orders demo_exchange JNull (after_calls 0)))) =
     [Inr (JStr ''normal_plan'')]
   \<and> JStr ''normal_plan'' \<noteq> JStr ''normal''"
  by code_simp

lemma py_get_Inr_is_dict: "py_get y k d = Inr v \<Longrightarrow> is_dict y"
  by (cases y) simp_all

lemma limit_only_Inr:
  "limit_only items = Inr os \<Longrightarrow>
   list_all is_dict items \<and> (\<forall>order \<in> set os. py_get order ''orderType'' JNull = Inr (JStr ''limit''))"
proof (induction items arbitrary: os)
  case Nil
  then show ?case by simp
next
  case (Cons order rest)
  then show ?case
    by (auto simp add: exn_bind_def py_get_Inr_is_dict split: sum.splits if_splits)
qed

lemma limit_only_strings: "limit_only (map (\<lambda>x. JStr (f x)) xs) = Inr os \<Longrightarrow> os = []"
  by (cases xs) (simp_all add: exn_bind_def)

lemma limit_orders_of_response_cases:
  assumes "limit_orders_of_response response s = (r, evs, s')"
  shows "s' = s \<and> invocations evs = [] \<and> sleeps evs = [] \<and>
     (case r of
        Inl e \<Rightarrow> True
      | Inr v \<Rightarrow> \<exists>orders. v = JList orders
          \<and> (\<forall>order \<in> set orders. py_get order ''orderType'' JNull = Inr (JStr ''limit''))
          \<and> (\<not> expected_shape response \<longrightarrow> orders = []))"
proof (cases response)
  case (JDict kvs)
  show ?thesis
  proof (cases "map_of kvs ''data''")
    case None
    with JDict assms show ?thesis
      by (auto simp add: limit_orders_of_response_def io_bind_apply split: if_splits)
  next
    case (Some d)
    with JDict have kvs: "kvs \<noteq> []" by auto
    show ?thesis
    proof (cases d)
      case (JDict dkvs)
      show ?thesis
      proof (cases "map_of dkvs ''entrustedList''")
        case None
        with JDict Some \<open>response = JDict kvs\<close> kvs assms show ?thesis
          by (auto simp add: limit_orders_of_response_def io_bind_apply exn_bind_def)
      next
        case el: (Some entrusted_list)
        show ?thesis
        proof (cases entrusted_list)
          case (JList xs)
          with el JDict Some \<open>response = JDict kvs\<close> kvs assms show ?thesis
            by (auto simp add: limit_orders_of_response_def io_bind_apply exn_bind_def
                expected_shape_def dest: limit_only_Inr split: sum.splits)
        next
          case (JDict ekvs)
          with el \<open>d = JDict dkvs\<close> Some \<open>response = JDict kvs\<close> kvs assms show ?thesis
            by (auto simp add: limit_orders_of_response_def io_bind_apply exn_bind_def
                expected_shape_def dest: limit_only_strings split: sum.splits)
        next
          case (JStr str)
          with el \<open>d = JDict dkvs\<close> Some \<open>response = JDict kvs\<close> kvs assms show ?thesis
            by (auto simp add: limit_orders_of_response_def io_bind_apply exn_bind_def
                expected_shape_def dest: limit_only_strings split: sum.splits)
        qed (use el \<open>d = JDict dkvs\<close> Some \<open>response = JDict kvs\<close> kvs assms in
              \<open>auto simp add: limit_orders_of_response_def io_bind_apply exn_bind_def\<close>)
      qed
    qed (use Some \<open>response = JDict kvs\<close> kvs assms in
          \<open>auto simp add: limit_orders_of_response_def io_bind_apply exn_bind_def\<close>)
  qed
qed (use assms in \<open>auto simp add: limit_orders_of_response_def io_bind_apply exn_bind_def
        expected_shape_def split: if_splits\<close>)

lemma expected_shape_has_data:
  "expected_shape response \<Longrightarrow> py_contains ''data'' response = Inr True"
  by (auto simp add: expected_shape_def split: json.splits option.splits)

lemma fetch_open_limit_orders_func_ok:
  assumes "with_symbol [(''productType'', JStr (product_type self)), (''status'', JStr ''live'')]
             symbol = Inr params"
  shows "\<exists>orders evs s'.
     fetch_open_limit_orders_func self symbol s = (Inr (JList orders), evs, s')
     \<and> invocations evs = [OrdersPending params] \<and> sleeps evs = []
     \<and> (\<forall>order \<in> set orders. py_get order ''orderType'' JNull = Inr (JStr ''limit''))
     \<and> (\<forall>response w'. client self (OrdersPending params) (remote s) = (Inr response, w')
           \<and> \<not> expected_shape response \<longrightarrow> orders = [])"
proof -
  obtain r w' where c: "client self (OrdersPending params) (remote s) = (r, w')"
    by (cases "client self (OrdersPending params) (remote s)") auto
  show ?thesis
  proof (cases r)
    case (Inl e)
    with c assms show ?thesis
      by (simp add: fetch_open_limit_orders_func_def io_bind_apply io_try_apply call_def)
  next
    case (Inr response)
    obtain r' evs' s'' where b: "limit_orders_of_response response (s\<lparr>remote := w'\<rparr>) = (r', evs', s'')"
      by (cases "limit_orders_of_response response (s\<lparr>remote := w'\<rparr>)") auto
    from limit_orders_of_response_cases [OF b] Inr c assms b show ?thesis
      by (cases r') (auto simp add: fetch_open_limit_orders_func_def io_bind_apply io_try_apply call_def)
  qed
qed

text \<open>
  C6. Whenever the symbol, if one is given, can be formatted, the fetch of the limit orders
  returns a list and does not raise; every order of the list has the order type
  \<^verbatim>\<open>limit\<close>; and the list is empty when the response has no \<^verbatim>\<open>data\<close> field, or has not the
  expected shape in any other way.
\<close>

theorem fetch_open_limit_orders_never_raises:
  assumes "with_symbol [(''productType'', JStr (product_type self)), (''status'', JStr ''live'')]
             symbol = Inr params"
  shows "\<exists>orders evs s'.
     fetch_open_limit_orders self symbol s = (Inr (JList orders), evs, s')
     \<and> (\<forall>order \<in> set orders. py_get order ''orderType'' JNull = Inr (JStr ''limit''))
     \<and> (\<forall>response w'. client self (OrdersPending params) (remote s) = (Inr response, w')
           \<and> py_contains ''data'' response \<noteq> Inr True \<longrightarrow> orders = [])
     \<and> (\<forall>response w'. client self (OrdersPending params) (remote s) = (Inr response, w')
           \<and> \<not> expected_shape response \<longrightarrow> orders = [])"
proof -
  from fetch_open_limit_orders_func_ok [OF assms, of s] obtain orders evs s'
    where f: "fetch_open_limit_orders_func self symbol s = (Inr (JList orders), evs, s')"
      and p: "\<forall>order \<in> set orders. py_get order ''orderType'' JNull = Inr (JStr ''limit'')"
        "\<forall>response w'. client self (OrdersPending params) (remote s) = (Inr response, w')
           \<and> \<not> expected_shape response \<longrightarrow> orders = []" by blast
  have "fetch_open_limit_orders self symbol s = (Inr (JList orders), evs, s')"
    unfolding fetch_open_limit_orders_def
    using f by (rule retry_async_ok) (simp add: MAX_RETRIES_def)
  moreover from p(2) have "\<forall>response w'.
      client self (OrdersPending params) (remote s) = (Inr response, w')
        \<and> py_contains ''data'' response \<noteq> Inr True \<longrightarrow> orders = []"
    using expected_shape_has_data by blast
  ultimately show ?thesis using p by blast
qed

theorem fetch_open_limit_orders_never_raises_witness:
  "fetch_open_limit_orders orders_exchange JNull (after_calls 0) =
     (Inr (JList [limit_order]), [Invoke limit_orders_query], after_calls 1)
   \<and> fetch_open_limit_orders orders_exchange JNull (after_calls 1) =
     (Inr (JList []), [Invoke limit_orders_query, Print UnexpectedResponseFormat], after_calls 2)
   \<and> (\<exists>orders evs s'.
        fetch_open_limit_orders orders_exchange JNull (after_calls 1) = (Inr (JList orders), evs, s')
        \<and> orders = [])"
proof -
  have 1: "fetch_open_limit_orders orders_exchange JNull (after_calls 0) =
     (Inr (JList [limit_order]), [Invoke limit_orders_query], after_calls 1)"
    by code_simp
  have 2: "fetch_open_limit_orders orders_exchange JNull (after_calls 1) =
     (Inr (JList []), [Invoke limit_orders_query, Print UnexpectedResponseFormat], after_calls 2)"
    by code_simp
  have w: "with_symbol
      [(''productType'', JStr (product_type orders_exchange)), (''status'', JStr ''live'')] JNull =
      Inr (JDict [(''productType'', JStr ''USDT-FUTURES''), (''status'', JStr ''live'')])"
    by (simp add: orders_exchange_def new_exchange_def)
  have c: "client orders_exchange
      (OrdersPending (JDict [(''productType'', JStr ''USDT-FUTURES''), (''status'', JStr ''live'')]))
      (remote (after_calls 1)) = (Inr no_data_response, 2)"
    by (simp add: orders_exchange_def new_exchange_def after_calls_def)
  have n: "\<not> expected_shape no_data_response"
    by (simp add: expected_shape_def no_data_response_def)
  from fetch_open_limit_orders_never_raises [OF w, of "after_calls 1"] c n
  have "\<exists>orders evs s'.
      fetch_open_limit_orders orders_exchange JNull (after_calls 1) = (Inr (JList orders), evs, s')
      \<and> orders = []"
    by blast
  with 1 2 show ?thesis by blast
qed

section \<open>The events of the steps of the run\<close>

lemma load_markets_emits: "emits_only cleanup_event (load_markets self)"
  unfolding load_markets_def load_markets_func_def
  by (intro emits_only_retry_async emits_only_bind emits_only_call) (simp_all add: emits_only_def)

lemma fetch_open_positions_emits: "emits_only cleanup_event (fetch_open_positions self float_str)"
  unfolding fetch_open_positions_def fetch_open_positions_func_def
  by (intro emits_only_retry_async emits_only_bind emits_only_call emits_only_lift) simp_all

lemma flash_close_position_emits:
  "emits_only cleanup_event (flash_close_position self symbol side)"
  unfolding flash_close_position_def flash_close_position_func_def
  by (intro emits_only_retry_async emits_only_bind emits_only_try emits_only_call
      emits_only_return emits_only_raise) simp_all

lemma fetch_open_trigger_orders_emits:
  "emits_only cleanup_event (fetch_open_trigger_orders self symbol)"
  unfolding fetch_open_trigger_orders_def fetch_open_trigger_orders_func_def
  by (intro emits_only_retry_async emits_only_bind emits_only_call emits_only_lift) simp_all

lemma fetch_open_tpsl_orders_emits:
  "emits_only cleanup_event (fetch_open_tpsl_orders self symbol)"
  unfolding fetch_open_tpsl_orders_def fetch_open_tpsl_orders_func_def
  by (intro emits_only_retry_async emits_only_bind emits_only_call emits_only_lift) simp_all

lemma limit_orders_of_response_emits: "emits_only cleanup_event (limit_orders_of_response response)"
  unfolding limit_orders_of_response_def
  by (intro emits_only_if emits_only_bind emits_only_print emits_only_return emits_only_lift)
    simp_all

lemma fetch_open_limit_orders_emits:
  "emits_only cleanup_event (fetch_open_limit_orders self symbol)"
  unfolding fetch_open_limit_orders_def fetch_open_limit_orders_func_def
  by (intro emits_only_retry_async emits_only_bind emits_only_try emits_only_call emits_only_lift
      emits_only_print emits_only_return limit_orders_of_response_emits) simp_all

lemma cancel_trigger_order_cleanup:
  "emits_only cleanup_event (cancel_trigger_order self symbol order_id)"
  unfolding cancel_trigger_order_def cancel_trigger_order_func_def
  by (intro emits_only_retry_async emits_only_bind emits_only_call emits_only_lift
      emits_only_return) simp_all

lemma cancel_limit_order_cleanup:
  "emits_only cleanup_event (cancel_limit_order self symbol order_id)"
  unfolding cancel_limit_order_def cancel_limit_order_func_def
  by (intro emits_only_retry_async emits_only_bind emits_only_call emits_only_lift
      emits_only_return) simp_all

lemma close_each_position_emits: "emits_only cleanup_event (close_each_position exchange items)"
proof (induction items)
  case Nil
  show ?case by (simp add: emits_only_def)
next
  case (Cons position rest)
  show ?case
    unfolding close_each_position.simps
    by (intro emits_only_bind emits_only_try emits_only_lift emits_only_print
        flash_close_position_emits Cons) simp_all
qed

lemma cancel_each_trigger_order_emits:
  "emits_only cleanup_event (cancel_each_trigger_order exchange items)"
proof (induction items)
  case Nil
  show ?case by (simp add: emits_only_def)
next
  case (Cons order rest)
  show ?case
    unfolding cancel_each_trigger_order.simps
    by (intro emits_only_bind emits_only_try emits_only_lift emits_only_print
        cancel_trigger_order_cleanup Cons) simp_all
qed

lemma cancel_each_tpsl_order_cleanup:
  "emits_only cleanup_event (cancel_each_tpsl_order exchange items)"
proof (induction items)
  case Nil
  show ?case by (simp add: emits_only_def)
next
  case (Cons order rest)
  show ?case
    unfolding cancel_each_tpsl_order.simps
    by (intro emits_only_bind emits_only_try emits_only_lift emits_only_print
        cancel_trigger_order_cleanup Cons) simp_all
qed

lemma cancel_each_limit_order_emits:
  "emits_only cleanup_event (cancel_each_limit_order exchange items)"
proof (induction items)
  case Nil
  show ?case by (simp add: emits_only_def)
next
  case (Cons order rest)
  show ?case
    unfolding cancel_each_limit_order.simps
    by (intro emits_only_bind emits_only_try emits_only_lift emits_only_print
        cancel_limit_order_cleanup Cons) simp_all
qed

lemma step1_emits: "emits_only cleanup_event (step1_close_positions exchange float_str)"
  unfolding step1_close_positions_def
  by (intro emits_only_bind emits_only_if emits_only_lift emits_only_print
      fetch_open_positions_emits close_each_position_emits) simp_all

lemma step2_emits: "emits_only cleanup_event (step2_cancel_trigger_orders exchange)"
  unfolding step2_cancel_trigger_orders_def
  by (intro emits_only_bind emits_only_if emits_only_lift emits_only_print
      fetch_open_trigger_orders_emits cancel_each_trigger_order_emits) simp_all

lemma step3_emits: "emits_only cleanup_event (step3_cancel_tpsl_orders exchange)"
  unfolding step3_cancel_tpsl_orders_def
  by (intro emits_only_bind emits_only_if emits_only_lift emits_only_print
      fetch_open_tpsl_orders_emits cancel_each_tpsl_order_cleanup) simp_all

lemma step4_emits: "emits_only cleanup_event (step4_cancel_limit_orders exchange)"
  unfolding step4_cancel_limit_orders_def
  by (intro emits_only_bind emits_only_if emits_only_lift emits_only_print
      fetch_open_limit_orders_emits cancel_each_limit_order_emits) simp_all

lemma report_open_positions_emits:
  "emits_only (\<lambda>ev. ev \<noteq> Invoke Close) (report_open_positions items)"
proof (induction items)
  case Nil
  show ?case by (simp add: emits_only_def)
next
  case (Cons position rest)
  show ?case
    unfolding report_open_positions.simps
    by (intro emits_only_bind emits_only_lift emits_only_print Cons) simp_all
qed

lemma verification_report_emits:
  "emits_only (\<lambda>ev. ev \<noteq> Invoke Close) (verification_report p t tp l)"
  unfolding verification_report_def
  by (intro emits_only_bind emits_only_if emits_only_lift emits_only_print
      report_open_positions_emits) simp_all

lemma no_close_of_cleanup: "emits_only cleanup_event m \<Longrightarrow> emits_only (\<lambda>ev. ev \<noteq> Invoke Close) m"
  by (erule emits_only_mono) (simp add: cleanup_event_def)

lemma verification_fetches_emits:
  "emits_only cleanup_event (verification_fetches exchange float_str)"
  unfolding verification_fetches_def
  by (intro emits_only_bind emits_only_return fetch_open_positions_emits
      fetch_open_trigger_orders_emits fetch_open_tpsl_orders_emits fetch_open_limit_orders_emits)

lemma final_verification_emits:
  "emits_only (\<lambda>ev. ev \<noteq> Invoke Close) (final_verification exchange float_str)"
  unfolding final_verification_def
  by (intro emits_only_bind emits_only_print no_close_of_cleanup [OF verification_fetches_emits])
    (simp_all add: verification_report_emits split: prod.splits)

lemma block_emits: "emits_only (\<lambda>ev. ev \<noteq> Invoke Close) (block exchange float_str)"
  unfolding block_def
  by (intro emits_only_bind final_verification_emits no_close_of_cleanup step1_emits step2_emits
      step3_emits step4_emits)

lemma close_invocations:
  "\<exists>k. invocations (events_of (close self s)) = replicate k Close \<and> 1 \<le> k \<and> k \<le> 5"
proof -
  have "\<And>s. invocations (events_of (close_func self s)) = [Close]"
    by (simp add: close_func_def io_bind_apply call_def split: prod.splits sum.splits)
  from retry_loop_invocations [of "close_func self" Close MAX_RETRIES BASE_DELAY "[0, 1, 2, 3, 4]" s, OF this]
  show ?thesis
    by (auto simp add: close_def retry_async_def py_range_MAX_RETRIES eval_nat_numeral)
qed

lemma close_no_prints_of_verification:
  "emits_only (\<lambda>ev. ev \<noteq> Print PerformingFinalVerification) (close self)"
  unfolding close_def close_func_def
  by (intro emits_only_retry_async emits_only_bind emits_only_call emits_only_return) simp_all

section \<open>The cancellation of the TP/SL orders\<close>








section \<open>The session and the report of the run\<close>

lemma main_acquired:
  assumes creds: "get_bitget_api_credentials ACCOUNTS = Inr (JDict kvs)"
    and ex: "exchange = new_exchange bitget kvs ''USDT-FUTURES''"
    and entered: "load_markets exchange (s\<lparr>markets := JNull\<rparr>) = (Inr m, evs_e, s1)"
    and blk: "block exchange float_str s1 = (r_b, evs_b, s2)"
    and cl: "close exchange s2 = (r_c, evs_c, s3)"
  shows "main ACCOUNTS bitget float_str s =
     (Inr (), Print Starting # evs_e @ evs_b @ evs_c @
        (case r_c of
           Inl e' \<Rightarrow> [Print (Error (str e')), Print Completed]
         | Inr u \<Rightarrow>
            (case r_b of
               Inl e \<Rightarrow> [Print (Error (str e)), Print Completed]
             | Inr u' \<Rightarrow> [Print Completed])), s3)"
  using assms
  by (simp add: main_def io_bind_apply io_try_apply BitgetExchange_init_def async_with_def
      aenter_def aexit_def split: sum.splits)

lemma main_not_acquired:
  assumes creds: "get_bitget_api_credentials ACCOUNTS = Inr (JDict kvs)"
    and ex: "exchange = new_exchange bitget kvs ''USDT-FUTURES''"
    and entered: "load_markets exchange (s\<lparr>markets := JNull\<rparr>) = (Inl e, evs_e, s1)"
  shows "main ACCOUNTS bitget float_str s =
     (Inr (), Print Starting # evs_e @ [Print (Error (str e)), Print Completed], s1)"
  using assms
  by (simp add: main_def io_bind_apply io_try_apply BitgetExchange_init_def async_with_def
      aenter_def aexit_def split: sum.splits)

lemma demo_entered:
  "load_markets demo_exchange ((after_calls 0)\<lparr>markets := JNull\<rparr>) =
     (Inr JNull, [Invoke LoadMarkets], after_calls 1)"
  by code_simp

text \<open>
  C3, as amended. On every run in which the session was acquired, that is the load of the
  markets in \<^verbatim>\<open>__aenter__\<close> returned, the close of the session is invoked exactly once, after
  the block, whether the block returned or raised: the events of the run are those of the
  load, of the block, of that one invocation of \<open>close\<close> and of the last printed lines; no
  remote call of the load or of the block is a close, the remote calls of \<open>close\<close> are
  between one and five closes (one for each attempt), and no remote call follows.
\<close>

theorem main_closes_session_once:
  assumes creds: "get_bitget_api_credentials ACCOUNTS = Inr (JDict kvs)"
    and ex: "exchange = new_exchange bitget kvs ''USDT-FUTURES''"
    and entered: "load_markets exchange (s\<lparr>markets := JNull\<rparr>) = (Inr m, evs_e, s1)"
  shows "\<exists>r_b evs_b s2 r_c evs_c s3 evs_post k.
       block exchange float_str s1 = (r_b, evs_b, s2)
     \<and> close exchange s2 = (r_c, evs_c, s3)
     \<and> events_of (main ACCOUNTS bitget float_str s) = Print Starting # evs_e @ evs_b @ evs_c @ evs_post
     \<and> Close \<notin> set (invocations (Print Starting # evs_e @ evs_b))
     \<and> invocations evs_c = replicate k Close \<and> 1 \<le> k \<and> k \<le> 5
     \<and> invocations evs_post = []"
proof -
  obtain r_b evs_b s2 where blk: "block exchange float_str s1 = (r_b, evs_b, s2)"
    by (cases "block exchange float_str s1") auto
  obtain r_c evs_c s3 where cl: "close exchange s2 = (r_c, evs_c, s3)"
    by (cases "close exchange s2") auto
  from close_invocations [of exchange s2] cl obtain k
    where k: "invocations evs_c = replicate k Close" "1 \<le> k" "k \<le> 5" by auto
  from emits_onlyD [OF load_markets_emits, of "Invoke Close" exchange "s\<lparr>markets := JNull\<rparr>"] entered
  have 1: "Invoke Close \<notin> set evs_e" by auto
  from emits_onlyD [OF block_emits, of "Invoke Close" exchange float_str s1] blk
  have 2: "Invoke Close \<notin> set evs_b" by auto
  from 1 2 have 3: "Close \<notin> set (invocations (Print Starting # evs_e @ evs_b))"
    by (simp add: set_invocations)
  let ?post = "(case r_c of
           Inl e' \<Rightarrow> [Print (Error (str e')), Print Completed]
         | Inr u \<Rightarrow>
            (case r_b of
               Inl e \<Rightarrow> [Print (Error (str e)), Print Completed]
             | Inr u' \<Rightarrow> [Print Completed]))"
  have 4: "invocations ?post = []" by (simp split: sum.splits)
  from main_acquired [OF creds ex entered blk cl]
  have "events_of (main ACCOUNTS bitget float_str s) = Print Starting # evs_e @ evs_b @ evs_c @ ?post"
    by simp
  with blk cl k 3 4 show ?thesis by blast
qed

theorem main_closes_session_once_witness:
  "\<exists>r_b evs_b s2 r_c evs_c s3 evs_post k.
       block demo_exchange no_float (after_calls 1) = (r_b, evs_b, s2)
     \<and> close demo_exchange s2 = (r_c, evs_c, s3)
     \<and> events_of (main demo_accounts demo_client no_float (after_calls 0)) =
         Print Starting # [Invoke LoadMarkets] @ evs_b @ evs_c @ evs_post
     \<and> Close \<notin> set (invocations (Print Starting # [Invoke LoadMarkets] @ evs_b))
     \<and> invocations evs_c = replicate k Close \<and> 1 \<le> k \<and> k \<le> 5
     \<and> invocations evs_post = []"
  using main_closes_session_once [OF demo_creds demo_exchange_def demo_entered, of no_float]
  by simp

text \<open>
  The claim C3 as stated fails when the load of the markets raises during the acquisition
  of the session: \<^verbatim>\<open>__aexit__\<close> does not run, and the only remote call of the run is the load.
\<close>

theorem main_markets_failure_counterexample:
  "invocations (events_of (main demo_accounts markets_down_client no_float (after_calls 0))) =
     [LoadMarkets]"
  by code_simp

lemma stage_fetch_fails_block:
  assumes "stage_fetch_fails exchange float_str s1 e evs s2"
  shows "block exchange float_str s1 = (Inl e, evs, s2) \<and> (\<forall>ev \<in> set evs. cleanup_event ev)"
  using assms unfolding stage_fetch_fails_def
proof (elim disjE exE conjE)
  fix evs_f
  assume f: "fetch_open_positions exchange float_str s1 = (Inl e, evs_f, s2)"
    and evs: "evs = Print FetchingPositions # evs_f"
  from emits_only_events [OF fetch_open_positions_emits f] evs
  have "\<forall>ev \<in> set evs. cleanup_event ev" by simp
  moreover from f evs have "block exchange float_str s1 = (Inl e, evs, s2)"
    by (simp add: block_def step1_close_positions_def io_bind_apply)
  ultimately show ?thesis by blast
next
  fix evs1 s' evs_f
  assume 1: "step1_close_positions exchange float_str s1 = (Inr (), evs1, s')"
    and f: "fetch_open_trigger_orders exchange JNull s' = (Inl e, evs_f, s2)"
    and evs: "evs = evs1 @ Print FetchingTriggerOrders # evs_f"
  from emits_only_events [OF fetch_open_trigger_orders_emits f]
    emits_only_events [OF step1_emits 1] evs
  have "\<forall>ev \<in> set evs. cleanup_event ev" by auto
  moreover from 1 f evs have "block exchange float_str s1 = (Inl e, evs, s2)"
    by (simp add: block_def step2_cancel_trigger_orders_def io_bind_apply)
  ultimately show ?thesis by blast
next
  fix evs1 s' evs2 s'' evs_f
  assume 1: "step1_close_positions exchange float_str s1 = (Inr (), evs1, s')"
    and 2: "step2_cancel_trigger_orders exchange s' = (Inr (), evs2, s'')"
    and f: "fetch_open_tpsl_orders exchange JNull s'' = (Inl e, evs_f, s2)"
    and evs: "evs = evs1 @ evs2 @ Print FetchingTpslOrders # evs_f"
  from emits_only_events [OF fetch_open_tpsl_orders_emits f]
    emits_only_events [OF step1_emits 1] emits_only_events [OF step2_emits 2] evs
  have "\<forall>ev \<in> set evs. cleanup_event ev" by auto
  moreover from 1 2 f evs have "block exchange float_str s1 = (Inl e, evs, s2)"
    by (simp add: block_def step3_cancel_tpsl_orders_def io_bind_apply)
  ultimately show ?thesis by blast
qed

text \<open>
  C10, as amended. When the fetch of the positions, of the trigger orders or of the TP/SL
  orders fails in a run that acquired the session, the failure ends the block: the run
  invokes the close of the session next, then prints the final error report (the error of
  the fetch, or the error of the close when the close fails too) and the last line. The
  final verification is not attempted.
\<close>

theorem main_stage_fetch_failure:
  assumes creds: "get_bitget_api_credentials ACCOUNTS = Inr (JDict kvs)"
    and ex: "exchange = new_exchange bitget kvs ''USDT-FUTURES''"
    and entered: "load_markets exchange (s\<lparr>markets := JNull\<rparr>) = (Inr m, evs_e, s1)"
    and fails: "stage_fetch_fails exchange float_str s1 e evs_b s2"
    and cl: "close exchange s2 = (r_c, evs_c, s3)"
  shows "main ACCOUNTS bitget float_str s =
       (Inr (),
        Print Starting # evs_e @ evs_b @ evs_c @
          [Print (Error (str (case r_c of Inl e' \<Rightarrow> e' | Inr u \<Rightarrow> e))), Print Completed],
        s3)
     \<and> (\<exists>k. invocations evs_c = replicate k Close \<and> 1 \<le> k \<and> k \<le> 5)
     \<and> Print PerformingFinalVerification \<notin> set (events_of (main ACCOUNTS bitget float_str s))"
proof -
  from stage_fetch_fails_block [OF fails]
  have blk: "block exchange float_str s1 = (Inl e, evs_b, s2)"
    and b: "\<forall>ev \<in> set evs_b. cleanup_event ev" by blast+
  from main_acquired [OF creds ex entered blk cl]
  have m: "main ACCOUNTS bitget float_str s =
       (Inr (),
        Print Starting # evs_e @ evs_b @ evs_c @
          [Print (Error (str (case r_c of Inl e' \<Rightarrow> e' | Inr u \<Rightarrow> e))), Print Completed],
        s3)"
    by (cases r_c) simp_all
  from close_invocations [of exchange s2] cl
  have k: "\<exists>k. invocations evs_c = replicate k Close \<and> 1 \<le> k \<and> k \<le> 5" by simp
  from emits_only_events [OF load_markets_emits entered]
  have e: "\<forall>ev \<in> set evs_e. cleanup_event ev" .
  from emits_only_events [OF close_no_prints_of_verification cl]
  have c: "\<forall>ev \<in> set evs_c. ev \<noteq> Print PerformingFinalVerification" .
  from b e c have "Print PerformingFinalVerification \<notin> set (events_of (main ACCOUNTS bitget float_str s))"
    unfolding m by (auto simp add: cleanup_event_def)
  with m k show ?thesis by blast
qed

theorem main_stage_fetch_failure_witness:
  "main demo_accounts positions_down_client no_float (after_calls 0) =
     (Inr (),
      [Print Starting, Invoke LoadMarkets, Print FetchingPositions, Invoke positions_query,
       Invoke Close, Print (Error ''BitgetExchange operation failed: down''), Print Completed],
      after_calls 3)
   \<and> Print PerformingFinalVerification
        \<notin> set (events_of (main demo_accounts positions_down_client no_float (after_calls 0)))"
proof -
  have e: "load_markets positions_down_exchange ((after_calls 0)\<lparr>markets := JNull\<rparr>) =
      (Inr JNull, [Invoke LoadMarkets], after_calls 1)"
    by code_simp
  have f: "fetch_open_positions positions_down_exchange no_float (after_calls 1) =
      (Inl (Exception ''BitgetExchange operation failed: down''), [Invoke positions_query],
       after_calls 2)"
    by code_simp
  have c: "close positions_down_exchange (after_calls 2) =
      (Inr JNull, [Invoke Close], after_calls 3)"
    by code_simp
  have s: "stage_fetch_fails positions_down_exchange no_float (after_calls 1)
      (Exception ''BitgetExchange operation failed: down'')
      [Print FetchingPositions, Invoke positions_query] (after_calls 2)"
    unfolding stage_fetch_fails_def using f by simp
  from main_stage_fetch_failure [OF demo_creds positions_down_exchange_def e s c]
  show ?thesis by simp
qed

text \<open>
  The claim C10 as stated fails: when the fetch of the positions fails, the run closes the
  session and reports the error, and makes no fetch of the verification.
\<close>

theorem main_stage_fetch_failure_counterexample:
  "events_of (main demo_accounts positions_down_client no_float (after_calls 0)) =
     [Print Starting, Invoke LoadMarkets, Print FetchingPositions, Invoke positions_query,
      Invoke Close, Print (Error ''BitgetExchange operation failed: down''), Print Completed]"
  by code_simp

lemma position_fieldsD:
  "position_fields p = Inr (symbol, side, contracts) \<Longrightarrow>
   py_getitem p ''symbol'' = Inr symbol \<and> py_getitem p ''side'' = Inr side
   \<and> py_getitem p ''contracts'' = Inr contracts"
  by (auto simp add: position_fields_def exn_bind_def split: sum.splits)

lemma flash_close_position_fatal:
  assumes "client exchange (ClosePosition symbol side) (remote s) = (Inl e, w')"
    and "\<not> is_rate_limit e"
  shows "flash_close_position exchange symbol side s =
     (Inl (operation_failed e), [Invoke (ClosePosition symbol side)], s\<lparr>remote := w'\<rparr>)"
proof -
  have "flash_close_position_func exchange symbol side s =
      (Inl e, [Invoke (ClosePosition symbol side)], s\<lparr>remote := w'\<rparr>)"
    using assms(1) by (simp add: flash_close_position_func_def io_try_apply io_bind_apply call_def)
  then show ?thesis
    unfolding flash_close_position_def retry_async_def py_range_MAX_RETRIES
    using assms(2) by (simp add: retry_loop_fatal)
qed

lemma flash_close_position_first_call:
  "\<exists>evs. events_of (flash_close_position exchange symbol side s) =
           Invoke (ClosePosition symbol side) # evs"
proof -
  obtain r w' where c: "client exchange (ClosePosition symbol side) (remote s) = (r, w')"
    by (cases "client exchange (ClosePosition symbol side) (remote s)") auto
  have f: "flash_close_position_func exchange symbol side s =
      (case r of Inl e \<Rightarrow> Inl e | Inr v \<Rightarrow> Inr JNull, [Invoke (ClosePosition symbol side)],
       s\<lparr>remote := w'\<rparr>)"
    using c
    by (simp add: flash_close_position_func_def io_try_apply io_bind_apply call_def split: sum.splits)
  show ?thesis
    using f unfolding flash_close_position_def retry_async_def py_range_MAX_RETRIES
    by (cases r)
      (auto simp add: retry_loop.simps(2) io_try_apply io_bind_apply Let_def split: prod.splits)
qed

lemma close_each_position_step:
  assumes "position_fields position = Inr (symbol, side, contracts)"
    and "flash_close_position exchange symbol side s = (r, evs, s')"
    and "close_each_position exchange rest s' = (r2, evs2, s2)"
  shows "close_each_position exchange (position # rest) s =
     (r2,
      Print (ClosingPosition position) # evs @
        Print (case r of Inr u \<Rightarrow> ClosedPosition side symbol contracts
               | Inl e \<Rightarrow> ErrorClosingPosition symbol (str e) position) # evs2,
      s2)"
  using position_fieldsD [OF assms(1)] assms(2,3)
  by (cases r) (simp_all add: io_bind_apply io_try_apply)

lemma report_open_positions_lists:
  assumes "\<forall>p \<in> set ps. \<exists>f. position_fields p = Inr f"
  shows "\<exists>evs. report_open_positions ps s = (Inr (), evs, s)
     \<and> (\<forall>p \<in> set ps. \<forall>symbol side contracts.
           position_fields p = Inr (symbol, side, contracts) \<longrightarrow>
           Print (StillOpenPosition symbol side contracts) \<in> set evs)"
  using assms
proof (induction ps)
  case Nil
  show ?case by simp
next
  case (Cons p ps)
  from Cons.prems obtain symbol side contracts where f: "position_fields p = Inr (symbol, side, contracts)"
    by (metis list.set_intros(1) prod_cases3)
  from Cons obtain evs where r: "report_open_positions ps s = (Inr (), evs, s)"
    and all: "\<forall>p \<in> set ps. \<forall>symbol side contracts.
           position_fields p = Inr (symbol, side, contracts) \<longrightarrow>
           Print (StillOpenPosition symbol side contracts) \<in> set evs" by auto
  from position_fieldsD [OF f] r
  have "report_open_positions (p # ps) s =
      (Inr (), Print (StillOpenPosition symbol side contracts) # evs, s)"
    by (simp add: io_bind_apply)
  with all f show ?case by auto
qed

lemma verification_report_lists:
  assumes "\<forall>p \<in> set ps. \<exists>f. position_fields p = Inr f" and "ps \<noteq> []"
  shows "\<exists>r post. verification_report (JList ps) t tp l s =
       (r, Print (PositionsStillOpen (length ps)) # post, s)
     \<and> (\<forall>p \<in> set ps. \<forall>symbol side contracts.
           position_fields p = Inr (symbol, side, contracts) \<longrightarrow>
           Print (StillOpenPosition symbol side contracts) \<in> set post)"
proof -
  from report_open_positions_lists [OF assms(1), of s] obtain evs
    where r: "report_open_positions ps s = (Inr (), evs, s)"
      and all: "\<forall>p \<in> set ps. \<forall>symbol side contracts.
           position_fields p = Inr (symbol, side, contracts) \<longrightarrow>
           Print (StillOpenPosition symbol side contracts) \<in> set evs" by blast
  obtain r2 evs2 s2 where o: "(if truthy t \<or> truthy tp \<or> truthy l then
       io_bind (io_lift (py_len t)) (\<lambda>a.
       io_bind (io_lift (py_len tp)) (\<lambda>b.
       io_bind (io_lift (py_len l)) (\<lambda>c.
       io_bind (io_print (OrdersStillOpen (a + b + c))) (\<lambda>_.
       io_bind (io_print (TriggerOrdersCount a)) (\<lambda>_.
       io_bind (io_print (TpslOrdersCount b)) (\<lambda>_.
       io_print (LimitOrdersCount c)))))))
     else io_print AllOrdersCanceled) s = (r2, evs2, s2)" (is "?orders s = _")
    by (cases "?orders s") auto
  have "emits_only (\<lambda>ev. True) ?orders" by (simp add: emits_only_def)
  have s2: "s2 = s"
    using o by (auto simp add: io_bind_apply split: if_splits sum.splits)
  have "verification_report (JList ps) t tp l s =
      (r2, Print (PositionsStillOpen (length ps)) # evs @ evs2, s)"
    using assms(2) r o s2 by (simp add: verification_report_def io_bind_apply)
  with all show ?thesis by auto
qed

text \<open>
  C2. In a run that acquired the session and fetched three open positions, where the
  remote close of the second raises an error that is not a rate limit: the run attempts
  the close of the first and of the third position and prints an outcome for each of the
  three, the error for the second. When the three steps that cancel orders then complete
  and the fetch of the verification returns positions of which the second is one, the
  report of the verification lists the second position as still open.
\<close>

theorem main_isolates_failed_position_close:
  assumes creds: "get_bitget_api_credentials ACCOUNTS = Inr (JDict kvs)"
    and ex: "exchange = new_exchange bitget kvs ''USDT-FUTURES''"
    and entered: "load_markets exchange (s\<lparr>markets := JNull\<rparr>) = (Inr m, evs_e, s1)"
    and fetch: "fetch_open_positions exchange float_str s1 = (Inr (JList [p1, p2, p3]), evs0, s_0)"
    and f1: "position_fields p1 = Inr (symbol1, side1, contracts1)"
    and f2: "position_fields p2 = Inr (symbol2, side2, contracts2)"
    and f3: "position_fields p3 = Inr (symbol3, side3, contracts3)"
    and close1: "flash_close_position exchange symbol1 side1 s_0 = (r1, evs1, s_1)"
    and fail2: "client exchange (ClosePosition symbol2 side2) (remote s_1) = (Inl e, w2)"
    and other: "\<not> is_rate_limit e"
    and close3: "flash_close_position exchange symbol3 side3 (s_1\<lparr>remote := w2\<rparr>) = (r3, evs3, s_3)"
  shows "\<exists>evs_rest.
      events_of (main ACCOUNTS bitget float_str s) =
        Print Starting # evs_e @ Print FetchingPositions # evs0 @
        Print (FoundPositions 3) #
        Print (ClosingPosition p1) # evs1 @
        Print (case r1 of Inr u \<Rightarrow> ClosedPosition side1 symbol1 contracts1
               | Inl e1 \<Rightarrow> ErrorClosingPosition symbol1 (str e1) p1) #
        Print (ClosingPosition p2) # Invoke (ClosePosition symbol2 side2) #
        Print (ErrorClosingPosition symbol2 (str (operation_failed e)) p2) #
        Print (ClosingPosition p3) # evs3 @
        Print (case r3 of Inr u \<Rightarrow> ClosedPosition side3 symbol3 contracts3
               | Inl e3 \<Rightarrow> ErrorClosingPosition symbol3 (str e3) p3) # evs_rest
    \<and> ClosePosition symbol1 side1 \<in> set (invocations evs1)
    \<and> ClosePosition symbol3 side3 \<in> set (invocations evs3)
    \<and> (\<forall>evs_2 s_a evs_3 s_b evs_4 s_4 ps t tp l evs_v s_5.
          step2_cancel_trigger_orders exchange s_3 = (Inr (), evs_2, s_a)
        \<and> step3_cancel_tpsl_orders exchange s_a = (Inr (), evs_3, s_b)
        \<and> step4_cancel_limit_orders exchange s_b = (Inr (), evs_4, s_4)
        \<and> verification_fetches exchange float_str s_4 = (Inr (JList ps, t, tp, l), evs_v, s_5)
        \<and> p2 \<in> set ps \<and> (\<forall>p \<in> set ps. \<exists>f. position_fields p = Inr f)
        \<longrightarrow> (\<exists>post. evs_rest = evs_2 @ evs_3 @ evs_4 @ Print PerformingFinalVerification # evs_v @
                        Print (PositionsStillOpen (length ps)) # post
                   \<and> Print (StillOpenPosition symbol2 side2 contracts2) \<in> set post))"
proof -
  let ?o1 = "case r1 of Inr u \<Rightarrow> ClosedPosition side1 symbol1 contracts1
               | Inl e1 \<Rightarrow> ErrorClosingPosition symbol1 (str e1) p1"
  let ?o3 = "case r3 of Inr u \<Rightarrow> ClosedPosition side3 symbol3 contracts3
               | Inl e3 \<Rightarrow> ErrorClosingPosition symbol3 (str e3) p3"
  let ?E1 = "Print FetchingPositions # evs0 @
        Print (FoundPositions 3) #
        Print (ClosingPosition p1) # evs1 @ Print ?o1 #
        Print (ClosingPosition p2) # Invoke (ClosePosition symbol2 side2) #
        Print (ErrorClosingPosition symbol2 (str (operation_failed e)) p2) #
        Print (ClosingPosition p3) # evs3 @ [Print ?o3]"
  let ?rest = "io_bind (step2_cancel_trigger_orders exchange) (\<lambda>_.
     io_bind (step3_cancel_tpsl_orders exchange) (\<lambda>_.
     io_bind (step4_cancel_limit_orders exchange) (\<lambda>_.
     final_verification exchange float_str)))"
  have l3: "close_each_position exchange [p3] (s_1\<lparr>remote := w2\<rparr>) =
      (Inr (), Print (ClosingPosition p3) # evs3 @ Print ?o3 # [], s_3)"
    by (rule close_each_position_step [OF f3 close3]) simp
  have l2: "close_each_position exchange [p2, p3] s_1 =
      (Inr (), Print (ClosingPosition p2) # [Invoke (ClosePosition symbol2 side2)] @
         Print (case Inl (operation_failed e) :: exn + json of Inr u \<Rightarrow> ClosedPosition side2 symbol2 contracts2
               | Inl e2 \<Rightarrow> ErrorClosingPosition symbol2 (str e2) p2) #
         Print (ClosingPosition p3) # evs3 @ Print ?o3 # [], s_3)"
    by (rule close_each_position_step [OF f2 flash_close_position_fatal [OF fail2 other] l3])
  have l1: "close_each_position exchange [p1, p2, p3] s_0 =
      (Inr (), Print (ClosingPosition p1) # evs1 @ Print ?o1 #
         Print (ClosingPosition p2) # [Invoke (ClosePosition symbol2 side2)] @
         Print (case Inl (operation_failed e) :: exn + json of Inr u \<Rightarrow> ClosedPosition side2 symbol2 contracts2
               | Inl e2 \<Rightarrow> ErrorClosingPosition symbol2 (str e2) p2) #
         Print (ClosingPosition p3) # evs3 @ Print ?o3 # [], s_3)"
    by (rule close_each_position_step [OF f1 close1 l2])
  have step1: "step1_close_positions exchange float_str s1 = (Inr (), ?E1, s_3)"
    using fetch l1 by (simp add: step1_close_positions_def io_bind_apply)
  obtain r_r evs_r s_r where rest: "?rest s_3 = (r_r, evs_r, s_r)"
    by (cases "?rest s_3") auto
  have blk: "block exchange float_str s1 = (r_r, ?E1 @ evs_r, s_r)"
    using step1 rest by (simp add: block_def io_bind_apply)
  obtain r_c evs_c s_c where cl: "close exchange s_r = (r_c, evs_c, s_c)"
    by (cases "close exchange s_r") auto
  let ?tail = "(case r_c of
           Inl e' \<Rightarrow> [Print (Error (str e')), Print Completed]
         | Inr u \<Rightarrow>
            (case r_r of
               Inl e \<Rightarrow> [Print (Error (str e)), Print Completed]
             | Inr u' \<Rightarrow> [Print Completed]))"
  from main_acquired [OF creds ex entered blk cl]
  have m: "events_of (main ACCOUNTS bitget float_str s) =
      Print Starting # evs_e @ (?E1 @ evs_r) @ evs_c @ ?tail" by simp
  have a1: "ClosePosition symbol1 side1 \<in> set (invocations evs1)"
    using flash_close_position_first_call [of exchange symbol1 side1 s_0] close1 by auto
  have a3: "ClosePosition symbol3 side3 \<in> set (invocations evs3)"
    using flash_close_position_first_call [of exchange symbol3 side3 "s_1\<lparr>remote := w2\<rparr>"] close3
    by auto
  have ii: "\<exists>post. evs_r @ evs_c @ ?tail = evs_2 @ evs_3 @ evs_4 @ Print PerformingFinalVerification # evs_v @
                        Print (PositionsStillOpen (length ps)) # post
                   \<and> Print (StillOpenPosition symbol2 side2 contracts2) \<in> set post"
    if h: "step2_cancel_trigger_orders exchange s_3 = (Inr (), evs_2, s_a)"
        "step3_cancel_tpsl_orders exchange s_a = (Inr (), evs_3, s_b)"
        "step4_cancel_limit_orders exchange s_b = (Inr (), evs_4, s_4)"
        "verification_fetches exchange float_str s_4 = (Inr (JList ps, t, tp, l), evs_v, s_5)"
        "p2 \<in> set ps" "\<forall>p \<in> set ps. \<exists>f. position_fields p = Inr f"
    for evs_2 s_a evs_3 s_b evs_4 s_4 ps t tp l evs_v s_5
  proof -
    from h(5) have ne: "ps \<noteq> []" by auto
    from verification_report_lists [OF h(6) ne, of t tp l s_5] obtain r post
      where v: "verification_report (JList ps) t tp l s_5 =
          (r, Print (PositionsStillOpen (length ps)) # post, s_5)"
        and all: "\<forall>p \<in> set ps. \<forall>symbol side contracts.
           position_fields p = Inr (symbol, side, contracts) \<longrightarrow>
           Print (StillOpenPosition symbol side contracts) \<in> set post" by blast
    from all h(5) f2 have p: "Print (StillOpenPosition symbol2 side2 contracts2) \<in> set post" by blast
    have "?rest s_3 = (r, evs_2 @ evs_3 @ evs_4 @ Print PerformingFinalVerification # evs_v @
                        Print (PositionsStillOpen (length ps)) # post, s_5)"
      using h(1-4) v by (simp add: io_bind_apply final_verification_def)
    with rest have "evs_r = evs_2 @ evs_3 @ evs_4 @ Print PerformingFinalVerification # evs_v @
                        Print (PositionsStillOpen (length ps)) # post" by simp
    with p show ?thesis by (intro exI [of _ "post @ evs_c @ ?tail"]) simp
  qed
  show ?thesis
    apply (rule exI [of _ "evs_r @ evs_c @ ?tail"])
    apply (intro conjI)
       apply (simp add: m)
      apply (rule a1)
     apply (rule a3)
    using ii apply blast
    done
qed

theorem main_isolates_failed_position_close_witness:
  "\<exists>evs_rest post.
     events_of (main demo_accounts demo_client no_float (after_calls 0)) =
       [Print Starting, Invoke LoadMarkets, Print FetchingPositions, Invoke positions_query,
        Print (FoundPositions 3),
        Print (ClosingPosition btc_position),
        Invoke (ClosePosition (JStr ''BTC/USDT:USDT'') (JStr ''long'')),
        Print (ClosedPosition (JStr ''long'') (JStr ''BTC/USDT:USDT'') (JFloat (Finite 2))),
        Print (ClosingPosition eth_position),
        Invoke (ClosePosition (JStr ''ETH/USDT:USDT'') (JStr ''short'')),
        Print (ErrorClosingPosition (JStr ''ETH/USDT:USDT'')
                 ''BitgetExchange operation failed: boom'' eth_position),
        Print (ClosingPosition sol_position),
        Invoke (ClosePosition (JStr ''SOL/USDT:USDT'') (JStr ''long'')),
        Print (ClosedPosition (JStr ''long'') (JStr ''SOL/USDT:USDT'') (JFloat (Finite 2)))] @ evs_rest
   \<and> evs_rest =
       [Print FetchingTriggerOrders, Invoke trigger_orders_query, Print NoTriggerOrders,
        Print FetchingTpslOrders, Invoke tpsl_orders_query, Print NoTpslOrders,
        Print FetchingLimitOrders, Invoke limit_orders_query, Print NoLimitOrders,
        Print PerformingFinalVerification,
        Invoke positions_query, Invoke trigger_orders_query, Invoke tpsl_orders_query,
        Invoke limit_orders_query,
        Print (PositionsStillOpen 1)] @ post
   \<and> Print (StillOpenPosition (JStr ''ETH/USDT:USDT'') (JStr ''short'') (JFloat (Finite 2))) \<in> set post"
proof -
  have fetch: "fetch_open_positions demo_exchange no_float (after_calls 1) =
      (Inr (JList [btc_position, eth_position, sol_position]), [Invoke positions_query],
       after_calls 2)"
    by code_simp
  have f1: "position_fields btc_position = Inr (JStr ''BTC/USDT:USDT'', JStr ''long'', JFloat (Finite 2))"
    by code_simp
  have f2: "position_fields eth_position = Inr (JStr ''ETH/USDT:USDT'', JStr ''short'', JFloat (Finite 2))"
    by code_simp
  have f3: "position_fields sol_position = Inr (JStr ''SOL/USDT:USDT'', JStr ''long'', JFloat (Finite 2))"
    by code_simp
  have close1: "flash_close_position demo_exchange (JStr ''BTC/USDT:USDT'') (JStr ''long'')
      (after_calls 2) =
      (Inr JNull, [Invoke (ClosePosition (JStr ''BTC/USDT:USDT'') (JStr ''long''))], after_calls 3)"
    by code_simp
  have fail2: "client demo_exchange (ClosePosition (JStr ''ETH/USDT:USDT'') (JStr ''short''))
      (remote (after_calls 3)) = (Inl (Exception ''boom''), 4)"
    by (simp add: demo_exchange_def new_exchange_def after_calls_def)
  have close3: "flash_close_position demo_exchange (JStr ''SOL/USDT:USDT'') (JStr ''long'')
      ((after_calls 3)\<lparr>remote := 4\<rparr>) =
      (Inr JNull, [Invoke (ClosePosition (JStr ''SOL/USDT:USDT'') (JStr ''long''))], after_calls 5)"
    by code_simp
  have step2: "step2_cancel_trigger_orders demo_exchange (after_calls 5) =
      (Inr (), [Print FetchingTriggerOrders, Invoke trigger_orders_query, Print NoTriggerOrders],
       after_calls 6)"
    by code_simp
  have step3: "step3_cancel_tpsl_orders demo_exchange (after_calls 6) =
      (Inr (), [Print FetchingTpslOrders, Invoke tpsl_orders_query, Print NoTpslOrders],
       after_calls 7)"
    by code_simp
  have step4: "step4_cancel_limit_orders demo_exchange (after_calls 7) =
      (Inr (), [Print FetchingLimitOrders, Invoke limit_orders_query, Print NoLimitOrders],
       after_calls 8)"
    by code_simp
  have vf: "verification_fetches demo_exchange no_float (after_calls 8) =
      (Inr (JList [eth_position], JList [], JList [], JList []),
       [Invoke positions_query, Invoke trigger_orders_query, Invoke tpsl_orders_query,
        Invoke limit_orders_query],
       after_calls 12)"
    by code_simp
  have wf: "eth_position \<in> set [eth_position]
      \<and> (\<forall>p \<in> set [eth_position]. \<exists>f. position_fields p = Inr f)"
    using f2 by simp
  from main_isolates_failed_position_close
    [OF demo_creds demo_exchange_def demo_entered fetch f1 f2 f3 close1 fail2
      not_rate_limit_boom close3]
  obtain evs_rest where
    A: "events_of (main demo_accounts demo_client no_float (after_calls 0)) =
       [Print Starting, Invoke LoadMarkets, Print FetchingPositions, Invoke positions_query,
        Print (FoundPositions 3),
        Print (ClosingPosition btc_position),
        Invoke (ClosePosition (JStr ''BTC/USDT:USDT'') (JStr ''long'')),
        Print (ClosedPosition (JStr ''long'') (JStr ''BTC/USDT:USDT'') (JFloat (Finite 2))),
        Print (ClosingPosition eth_position),
        Invoke (ClosePosition (JStr ''ETH/USDT:USDT'') (JStr ''short'')),
        Print (ErrorClosingPosition (JStr ''ETH/USDT:USDT'')
                 ''BitgetExchange operation failed: boom'' eth_position),
        Print (ClosingPosition sol_position),
        Invoke (ClosePosition (JStr ''SOL/USDT:USDT'') (JStr ''long'')),
        Print (ClosedPosition (JStr ''long'') (JStr ''SOL/USDT:USDT'') (JFloat (Finite 2)))] @ evs_rest"
    and B: "\<forall>evs_2 s_a evs_3 s_b evs_4 s_4 ps t tp l evs_v s_5.
          step2_cancel_trigger_orders demo_exchange (after_calls 5) = (Inr (), evs_2, s_a)
        \<and> step3_cancel_tpsl_orders demo_exchange s_a = (Inr (), evs_3, s_b)
        \<and> step4_cancel_limit_orders demo_exchange s_b = (Inr (), evs_4, s_4)
        \<and> verification_fetches demo_exchange no_float s_4 = (Inr (JList ps, t, tp, l), evs_v, s_5)
        \<and> eth_position \<in> set ps \<and> (\<forall>p \<in> set ps. \<exists>f. position_fields p = Inr f)
        \<longrightarrow> (\<exists>post. evs_rest = evs_2 @ evs_3 @ evs_4 @ Print PerformingFinalVerification # evs_v @
                        Print (PositionsStillOpen (length ps)) # post
                   \<and> Print (StillOpenPosition (JStr ''ETH/USDT:USDT'') (JStr ''short'') (JFloat (Finite 2)))
                        \<in> set post)"
    by (auto simp add: operation_failed_def)
  from B [rule_format, OF conjI [OF step2 conjI [OF step3 conjI [OF step4 conjI [OF vf wf]]]]]
  obtain post where "evs_rest =
       [Print FetchingTriggerOrders, Invoke trigger_orders_query, Print NoTriggerOrders,
        Print FetchingTpslOrders, Invoke tpsl_orders_query, Print NoTpslOrders,
        Print FetchingLimitOrders, Invoke limit_orders_query, Print NoLimitOrders,
        Print PerformingFinalVerification,
        Invoke positions_query, Invoke trigger_orders_query, Invoke tpsl_orders_query,
        Invoke limit_orders_query,
        Print (PositionsStillOpen 1)] @ post"
    and "Print (StillOpenPosition (JStr ''ETH/USDT:USDT'') (JStr ''short'') (JFloat (Finite 2))) \<in> set post"
    by auto
  with A show ?thesis by blast
qed

end
